theory Spec2Isabelle
  imports Main "HOL-Library.Word"
begin

section \<open>Strings and clocks\<close>

text \<open>
  A JavaScript string is a sequence of UTF-16 code units, and so is every text column that
  the client writes. String literals of the sources are ASCII and are written with
  \<open>str\<close>. Clock readings (\<open>Date.now()\<close>) are integers counting milliseconds; database
  timestamps (\<open>TIMESTAMP WITH TIME ZONE\<close>) are integers counting microseconds.
\<close>

type_synonym jsstring = "16 word list"

definition str :: "string \<Rightarrow> jsstring" where
  "str s = map of_char s"

text \<open>
  \<open>String.prototype.trim\<close> strips the code units of the ECMAScript productions
  WhiteSpace and LineTerminator from both ends: TAB, LF, VT, FF, CR, SP, NBSP, the
  space separators U+1680, U+2000 to U+200A, U+202F, U+205F, U+3000, the line and
  paragraph separators U+2028 and U+2029, and U+FEFF.
\<close>

definition isWhiteSpace :: "16 word \<Rightarrow> bool" where
  "isWhiteSpace c \<longleftrightarrow>
     c \<in> {0x09, 0x0A, 0x0B, 0x0C, 0x0D, 0x20, 0xA0, 0x1680, 0x2000, 0x2001, 0x2002,
          0x2003, 0x2004, 0x2005, 0x2006, 0x2007, 0x2008, 0x2009, 0x200A, 0x2028,
          0x2029, 0x202F, 0x205F, 0x3000, 0xFEFF}"

definition trim :: "jsstring \<Rightarrow> jsstring" where
  "trim s = rev (dropWhile isWhiteSpace (rev (dropWhile isWhiteSpace s)))"

text \<open>
  Number-to-string conversion of a template literal, for the integers a clock reads (below
  \<open>10\<^sup>2\<^sup>1\<close> in magnitude, where the decimal digits are written out).
\<close>

function digits :: "nat \<Rightarrow> jsstring" where
  "digits n = (if n < 10 then [48 + of_nat n] else digits (n div 10) @ [48 + of_nat (n mod 10)])"
  by pat_completeness auto
termination
  by (relation "measure id") auto

declare digits.simps [simp del]

definition numberToString :: "int \<Rightarrow> jsstring" where
  "numberToString n = (if n < 0 then str ''-'' @ digits (nat (- n)) else digits (nat n))"

section \<open>The database schema (database\_schema.sql, supabase\_setup.sql)\<close>

subsection \<open>SQL conditions\<close>

text \<open>
  A nullable column is an \<open>option\<close>; a condition over it has three values, with
  \<open>None\<close> for unknown. A \<open>WHERE\<close> clause and a PL/pgSQL \<open>IF\<close> take a row only when
  the condition is true.
\<close>

type_synonym sql_bool = "bool option"

fun sql_and :: "sql_bool \<Rightarrow> sql_bool \<Rightarrow> sql_bool" where
  "sql_and (Some False) _ = Some False"
| "sql_and _ (Some False) = Some False"
| "sql_and (Some True) (Some True) = Some True"
| "sql_and _ _ = None"

fun sql_lt :: "int option \<Rightarrow> int option \<Rightarrow> sql_bool" where
  "sql_lt (Some a) (Some b) = Some (a < b)"
| "sql_lt _ _ = None"

definition sql_is_not_null :: "'a option \<Rightarrow> sql_bool" where
  "sql_is_not_null v = Some (v \<noteq> None)"

definition sql_true :: "sql_bool \<Rightarrow> bool" where
  "sql_true c \<longleftrightarrow> c = Some True"

subsection \<open>The projects table\<close>

text \<open>
  \<open>completed\<close> is \<open>BOOLEAN NOT NULL\<close>, so a stored row and a row that passes the
  constraint carry a truth value; \<open>completed_at\<close> is nullable.
\<close>

record project_row =
  p_id :: jsstring
  p_user_id :: jsstring
  p_text :: jsstring
  p_completed :: bool
  p_created_at :: int
  p_updated_at :: int
  p_completed_at :: "int option"

text \<open>
  \<open>INTERVAL '7 days'\<close> subtracted from \<open>NOW()\<close>, in a session whose time zone is UTC
  (every day has 24 hours), in microseconds.
\<close>

definition interval_7_days :: int where
  "interval_7_days = 7 * 24 * 60 * 60 * 1000000"

text \<open>
  \<open>delete_old_completed_tasks\<close>, on the table as its caller sees it (all rows, for a role
  that row-level security does not restrict):
  \<^verbatim>\<open>DELETE FROM public.projects WHERE completed = true AND completed_at IS NOT NULL
     AND completed_at < NOW() - INTERVAL '7 days';\<close>
\<close>

definition delete_old_completed_tasks_where :: "int \<Rightarrow> project_row \<Rightarrow> sql_bool" where
  "delete_old_completed_tasks_where now r =
     sql_and (sql_and (Some (p_completed r = True)) (sql_is_not_null (p_completed_at r)))
             (sql_lt (p_completed_at r) (Some (now - interval_7_days)))"

definition delete_old_completed_tasks :: "int \<Rightarrow> project_row list \<Rightarrow> project_row list" where
  "delete_old_completed_tasks now projects =
     filter (\<lambda>r. \<not> sql_true (delete_old_completed_tasks_where now r)) projects"

text \<open>
  The rows the specification names: completed, with a completion time more than seven
  days before \<open>now\<close>.
\<close>

definition completed_over_7_days_ago :: "int \<Rightarrow> project_row \<Rightarrow> bool" where
  "completed_over_7_days_ago now r \<longleftrightarrow>
     p_completed r \<and>
     (case p_completed_at r of None \<Rightarrow> False | Some t \<Rightarrow> t < now - 7 * 24 * 60 * 60 * 1000000)"

subsection \<open>Triggers on the projects table\<close>

fun sql_or :: "sql_bool \<Rightarrow> sql_bool \<Rightarrow> sql_bool" where
  "sql_or (Some True) _ = Some True"
| "sql_or _ (Some True) = Some True"
| "sql_or (Some False) (Some False) = Some False"
| "sql_or _ _ = None"

definition sql_eq :: "'a option \<Rightarrow> 'a option \<Rightarrow> sql_bool" where
  "sql_eq a b = (case (a, b) of (Some x, Some y) \<Rightarrow> Some (x = y) | _ \<Rightarrow> None)"

definition sql_is_null :: "'a option \<Rightarrow> sql_bool" where
  "sql_is_null v = Some (v = None)"

text \<open>
  \<open>update_completed_at\<close>, the function of the trigger \<open>trigger_update_completed_at\<close>
  (\<open>BEFORE UPDATE ... FOR EACH ROW\<close>): \<open>old\<close> is the stored row, \<open>new\<close> the row the
  statement proposes, and the result is the row that is stored.
  \<^verbatim>\<open>
  IF NEW.completed = true AND (OLD.completed = false OR OLD.completed IS NULL) THEN
      NEW.completed_at = NOW();  NEW.updated_at = NOW();
  ELSIF NEW.completed = false AND OLD.completed = true THEN
      NEW.completed_at = NULL;   NEW.updated_at = NOW();
  ELSE
      NEW.updated_at = NOW();
  END IF;
  RETURN NEW;\<close>
\<close>

definition update_completed_at :: "int \<Rightarrow> project_row \<Rightarrow> project_row \<Rightarrow> project_row" where
  "update_completed_at now old new =
     (if sql_true (sql_and (sql_eq (Some (p_completed new)) (Some True))
                     (sql_or (sql_eq (Some (p_completed old)) (Some False))
                             (sql_is_null (Some (p_completed old)))))
      then new\<lparr>p_completed_at := Some now, p_updated_at := now\<rparr>
      else if sql_true (sql_and (sql_eq (Some (p_completed new)) (Some False))
                          (sql_eq (Some (p_completed old)) (Some True)))
      then new\<lparr>p_completed_at := None, p_updated_at := now\<rparr>
      else new\<lparr>p_updated_at := now\<rparr>)"

text \<open>
  \<open>handle_projects_updated_at\<close> (named \<open>handle_updated_at\<close> in supabase\_setup.sql), the
  other \<open>BEFORE UPDATE\<close> trigger of the table: \<open>NEW.updated_at = timezone('utc', now())\<close>.
\<close>

definition handle_projects_updated_at :: "int \<Rightarrow> project_row \<Rightarrow> project_row \<Rightarrow> project_row" where
  "handle_projects_updated_at now old new = new\<lparr>p_updated_at := now\<rparr>"

text \<open>
  An \<open>UPDATE ... SET\<close> on one row: the columns the statement assigns (\<open>None\<close> for a
  column it leaves alone; \<open>completed_at\<close> can be assigned \<open>NULL\<close>). The triggers fire in
  the order of their names, \<open>handle_...\<close> before \<open>trigger_update_completed_at\<close>.
\<close>

record project_update =
  set_text :: "jsstring option"
  set_completed :: "bool option"
  set_updated_at :: "int option"
  set_completed_at :: "int option option"

definition apply_set :: "project_update \<Rightarrow> project_row \<Rightarrow> project_row" where
  "apply_set u old =
     old\<lparr>p_text := (case set_text u of None \<Rightarrow> p_text old | Some v \<Rightarrow> v),
         p_completed := (case set_completed u of None \<Rightarrow> p_completed old | Some v \<Rightarrow> v),
         p_updated_at := (case set_updated_at u of None \<Rightarrow> p_updated_at old | Some v \<Rightarrow> v),
         p_completed_at := (case set_completed_at u of None \<Rightarrow> p_completed_at old | Some v \<Rightarrow> v)\<rparr>"

definition update_project :: "int \<Rightarrow> project_update \<Rightarrow> project_row \<Rightarrow> project_row" where
  "update_project now u old =
     update_completed_at now old (handle_projects_updated_at now old (apply_set u old))"

text \<open>A sequence of updates of one row, each at its own time.\<close>

fun update_project_seq :: "(int \<times> project_update) list \<Rightarrow> project_row \<Rightarrow> project_row" where
  "update_project_seq [] r = r"
| "update_project_seq ((now, u) # us) r = update_project_seq us (update_project now u r)"

text \<open>
  The row an \<open>INSERT\<close> of \<open>user_id\<close>, \<open>text\<close> and \<open>completed\<close> stores (what the client
  sends): the timestamps take their defaults and \<open>completed_at\<close> is \<open>NULL\<close>. There is no
  insert trigger.
\<close>

definition insert_project :: "int \<Rightarrow> jsstring \<Rightarrow> jsstring \<Rightarrow> jsstring \<Rightarrow> bool \<Rightarrow> project_row" where
  "insert_project now new_id user_id txt completed =
     \<lparr>p_id = new_id, p_user_id = user_id, p_text = txt, p_completed = completed,
      p_created_at = now, p_updated_at = now, p_completed_at = None\<rparr>"

definition completed_at_invariant :: "project_row \<Rightarrow> bool" where
  "completed_at_invariant r \<longleftrightarrow> (p_completed_at r \<noteq> None) = p_completed r"

subsection \<open>The files table and the storage objects\<close>

record file_row =
  f_id :: jsstring
  f_user_id :: jsstring
  f_name :: jsstring
  f_type :: jsstring
  f_size :: int
  f_file_path :: jsstring
  f_expires_at :: int
  f_created_at :: int

record storage_object =
  o_bucket_id :: jsstring
  o_name :: jsstring

record database =
  db_files :: "file_row list"
  db_objects :: "storage_object list"

text \<open>
  \<open>cleanup_expired_files\<close>, on the tables as its caller sees them. The loop runs over
  the result of its query, taken when the loop starts; \<open>now\<close> is
  \<open>timezone('utc', now())\<close> read as an instant, in a session whose time zone is UTC.
  \<^verbatim>\<open>
  FOR expired_file IN
      SELECT id, file_path FROM public.files WHERE expires_at < timezone('utc'::text, now())
  LOOP
      DELETE FROM storage.objects WHERE bucket_id = 'user-files' AND name = expired_file.file_path;
      DELETE FROM public.files WHERE id = expired_file.id;
  END LOOP;\<close>
\<close>

definition select_expired_files :: "int \<Rightarrow> database \<Rightarrow> (jsstring \<times> jsstring) list" where
  "select_expired_files now db =
     map (\<lambda>f. (f_id f, f_file_path f)) (filter (\<lambda>f. f_expires_at f < now) (db_files db))"

definition cleanup_expired_file :: "jsstring \<times> jsstring \<Rightarrow> database \<Rightarrow> database" where
  "cleanup_expired_file expired_file db =
     db\<lparr>db_objects := filter (\<lambda>obj. \<not> (o_bucket_id obj = str ''user-files'' \<and>
                                        o_name obj = snd expired_file)) (db_objects db),
        db_files := filter (\<lambda>f. \<not> (f_id f = fst expired_file)) (db_files db)\<rparr>"

definition cleanup_expired_files :: "int \<Rightarrow> database \<Rightarrow> database" where
  "cleanup_expired_files now db = fold cleanup_expired_file (select_expired_files now db) db"

section \<open>The client\<close>

subsection \<open>Users and remote calls\<close>

record user =
  u_id :: jsstring
  u_name :: jsstring
  u_surname :: jsstring
  u_email :: jsstring
  u_avatar :: "jsstring option"

text \<open>
  What a call of the hosted backend's SDK gives back: a result with data, a result with
  an error (\<open>{ data, error }\<close> with \<open>error\<close> set), or an exception (a rejected promise).
\<close>

datatype 'a remote = Data 'a | Error | Threw

text \<open>
  \<open>new Date(ms).toISOString()\<close> stored in a timestamp column, and
  \<open>new Date(column).getTime()\<close> read back.
\<close>

definition us_of_ms :: "int \<Rightarrow> int" where
  "us_of_ms t = t * 1000"

definition ms_of_us :: "int \<Rightarrow> int" where
  "ms_of_us t = t div 1000"

subsection \<open>The files hook (FilesProvider)\<close>

definition FILE_EXPIRATION_TIME :: int where
  "FILE_EXPIRATION_TIME = 24 * 60 * 60 * 1000"

record js_file =
  file_name :: jsstring
  file_type :: jsstring
  file_size :: int

record stored_file =
  sf_id :: jsstring
  sf_name :: jsstring
  sf_type :: jsstring
  sf_size :: int
  sf_base64 :: jsstring
  sf_expiresAt :: int

record files_state =
  files :: "stored_file list"
  files_isLoading :: bool

text \<open>\<open>name.split('.').pop()\<close>: what follows the last dot, or the whole name.\<close>

definition split_pop :: "jsstring \<Rightarrow> jsstring" where
  "split_pop s = rev (takeWhile (\<lambda>c. c \<noteq> 0x2E) (rev s))"

text \<open>
  \<open>addFile\<close>. Its inputs beyond the file: the signed-in user, the clock reading and the
  random suffix of the file name, the outcome of the storage upload, the clock reading
  taken for \<open>expires_at\<close> (after the upload has returned), the outcome of the insert
  (the id and \<open>created_at\<close> the database gives the row) and the outcome of the removal
  that follows a failed insert. The state is the hook's state and the database.
\<close>

definition addFile ::
  "user option \<Rightarrow> js_file \<Rightarrow> int \<Rightarrow> jsstring \<Rightarrow> unit remote \<Rightarrow> int \<Rightarrow>
   (jsstring \<times> int) remote \<Rightarrow> unit remote \<Rightarrow> files_state \<times> database \<Rightarrow> files_state \<times> database" where
  "addFile usr file now_name random upload now_expiry inserted removed = (\<lambda>(st, db).
     case usr of
       None \<Rightarrow> (st, db)
     | Some u \<Rightarrow>
         let fileExtension = split_pop (file_name file);
             fileName = numberToString now_name @ str ''-'' @ random @ str ''.'' @ fileExtension;
             filePath = u_id u @ str ''/'' @ fileName;
             finally = st\<lparr>files_isLoading := False\<rparr>
         in (case upload of
               Data _ \<Rightarrow>
                 let db1 = db\<lparr>db_objects := db_objects db @
                            [\<lparr>o_bucket_id = str ''user-files'', o_name = filePath\<rparr>]\<rparr>
                 in (case inserted of
                       Data (new_id, created) \<Rightarrow>
                         let row = \<lparr>f_id = new_id, f_user_id = u_id u, f_name = file_name file,
                                    f_type = file_type file, f_size = file_size file,
                                    f_file_path = filePath,
                                    f_expires_at = us_of_ms (now_expiry + FILE_EXPIRATION_TIME),
                                    f_created_at = created\<rparr>;
                             newFile = \<lparr>sf_id = f_id row, sf_name = file_name file,
                                        sf_type = file_type file, sf_size = file_size file,
                                        sf_base64 = [], sf_expiresAt = ms_of_us (f_expires_at row)\<rparr>
                         in (finally\<lparr>files := newFile # files st\<rparr>,
                             db1\<lparr>db_files := db_files db1 @ [row]\<rparr>)
                     | Error \<Rightarrow>
                         (finally,
                          case removed of
                            Data _ \<Rightarrow> db1\<lparr>db_objects :=
                               filter (\<lambda>obj. \<not> (o_bucket_id obj = str ''user-files'' \<and>
                                                  o_name obj = filePath)) (db_objects db1)\<rparr>
                          | _ \<Rightarrow> db1)
                     | Threw \<Rightarrow> (finally, db1))
             | _ \<Rightarrow> (finally, db)))"

subsection \<open>The projects hook (ProjectsProvider)\<close>

record project_task =
  t_id :: jsstring
  t_text :: jsstring
  t_completed :: bool
  t_createdAt :: int

text \<open>
  What the hook does, in program order: a \<open>setTasks\<close> (with the list it leaves), a
  \<open>setIsLoading\<close>, or a call of the remote store.
\<close>

datatype remote_call =
    InsertProject jsstring jsstring bool
  | UpdateProject jsstring jsstring bool int
  | DeleteProject jsstring

datatype task_event = SetTasks "project_task list" | SetIsLoading bool | RemoteCall remote_call

definition task_of_row :: "project_row \<Rightarrow> project_task" where
  "task_of_row savedTask =
     \<lparr>t_id = p_id savedTask, t_text = p_text savedTask, t_completed = p_completed savedTask,
      t_createdAt = ms_of_us (p_created_at savedTask)\<rparr>"

text \<open>
  \<open>addTask\<close>: \<open>now_id\<close> and \<open>now_created\<close> are the two clock readings of the temporary
  task, \<open>savedTask\<close> is what \<open>insertTaskToDB\<close> returns (the stored row, or null after an
  error or an exception, both of which it catches). Nothing else in the \<open>try\<close> block
  raises.
\<close>

definition addTask ::
  "user option \<Rightarrow> jsstring \<Rightarrow> int \<Rightarrow> int \<Rightarrow> project_row option \<Rightarrow> project_task list \<Rightarrow>
   project_task list \<times> task_event list" where
  "addTask usr txt now_id now_created savedTask tasks =
     (case usr of
        None \<Rightarrow> (tasks, [])
      | Some u \<Rightarrow>
          if trim txt = [] then (tasks, [])
          else
            let tempTask = \<lparr>t_id = str ''temp-'' @ numberToString now_id, t_text = txt,
                            t_completed = False, t_createdAt = now_created\<rparr>;
                added = tempTask # tasks;
                settled = (case savedTask of
                    Some row \<Rightarrow> map (\<lambda>task. if t_id task = t_id tempTask then task_of_row row else task) added
                  | None \<Rightarrow> filter (\<lambda>task. t_id task \<noteq> t_id tempTask) added)
            in (settled,
                [SetIsLoading True, SetTasks added,
                 RemoteCall (InsertProject (u_id u) (t_text tempTask) (t_completed tempTask)),
                 SetTasks settled, SetIsLoading False]))"

text \<open>
  \<open>toggleTask\<close>: \<open>now\<close> is the clock reading sent as \<open>updated_at\<close>, \<open>result\<close> the outcome
  of the remote update. After an error the optimistic update is reverted; after an
  exception it is not.
\<close>

definition toggleTask ::
  "user option \<Rightarrow> jsstring \<Rightarrow> int \<Rightarrow> unit remote \<Rightarrow> project_task list \<Rightarrow>
   project_task list \<times> task_event list" where
  "toggleTask usr ident now result tasks =
     (case usr of
        None \<Rightarrow> (tasks, [])
      | Some u \<Rightarrow>
          (case find (\<lambda>t. t_id t = ident) tasks of
             None \<Rightarrow> (tasks, [SetIsLoading True, SetIsLoading False])
           | Some currentTask \<Rightarrow>
               let newCompleted = \<not> t_completed currentTask;
                   toggled = map (\<lambda>task. if t_id task = ident
                                           then task\<lparr>t_completed := newCompleted\<rparr> else task) tasks;
                   reverted = map (\<lambda>task. if t_id task = ident
                                           then task\<lparr>t_completed := t_completed currentTask\<rparr>
                                           else task) toggled;
                   call = RemoteCall (UpdateProject ident (u_id u) newCompleted now)
               in (case result of
                     Error \<Rightarrow> (reverted, [SetIsLoading True, SetTasks toggled, call,
                                           SetTasks reverted, SetIsLoading False])
                   | _ \<Rightarrow> (toggled, [SetIsLoading True, SetTasks toggled, call,
                                       SetIsLoading False]))))"

text \<open>\<open>deleteTask\<close>: the remote delete is awaited first; the list changes after it succeeds.\<close>

definition deleteTask ::
  "user option \<Rightarrow> jsstring \<Rightarrow> unit remote \<Rightarrow> project_task list \<Rightarrow>
   project_task list \<times> task_event list" where
  "deleteTask usr ident result tasks =
     (case usr of
        None \<Rightarrow> (tasks, [])
      | Some u \<Rightarrow>
          (case result of
             Data _ \<Rightarrow>
               (filter (\<lambda>t. t_id t \<noteq> ident) tasks,
                [SetIsLoading True, RemoteCall (DeleteProject ident),
                 SetTasks (filter (\<lambda>t. t_id t \<noteq> ident) tasks), SetIsLoading False])
           | _ \<Rightarrow> (tasks, [SetIsLoading True, RemoteCall (DeleteProject ident), SetIsLoading False])))"

text \<open>
  An optimistic update: leaving the loading flag aside, the first thing the operation does
  is to set the task list to the expected one, and the next is the remote call.
\<close>

definition optimistic :: "project_task list \<Rightarrow> task_event list \<Rightarrow> bool" where
  "optimistic expected events =
     (case filter (\<lambda>e. case e of SetIsLoading _ \<Rightarrow> False | _ \<Rightarrow> True) events of
        SetTasks ts # RemoteCall c # rest \<Rightarrow> ts = expected
      | _ \<Rightarrow> False)"

subsection \<open>The generation service (geminiService.ts)\<close>

definition PRIMARY_MODEL :: jsstring where
  "PRIMARY_MODEL = str ''gemini-2.5-flash''"

definition BACKUP_MODEL :: jsstring where
  "BACKUP_MODEL = str ''gemini-2.0-flash''"

text \<open>The static apology, with its apostrophe (U+0027) written as a code unit.\<close>

definition apology :: jsstring where
  "apology = str ''I'' @ [0x27] @
     str ''m sorry, I encountered an error while processing your request. Please try again.''"

text \<open>
  How a block of statements ends: it runs to its end, it executes \<open>return\<close>, or an
  exception leaves it. A generator's run is the list of values it yields together with
  the way its body ends.
\<close>

datatype 'a completion = Normal | Return 'a | Throw

datatype role = RoleUser | RoleModel

record history_message =
  h_role :: role
  h_content :: jsstring

record generate_params =
  gp_prompt :: jsstring
  gp_image :: "(jsstring \<times> jsstring) option"
  gp_user :: "user option"
  gp_conversationHistory :: "history_message list"

datatype part = TextPart jsstring | InlineData jsstring jsstring

record content =
  ct_parts :: "part list"
  ct_role :: role

text \<open>
  The system instruction is a fixed text, extended by a sentence naming the user when there
  is one, and by one of two paragraphs according to whether there is history; it is kept as
  the data that choose it.
\<close>

record system_instruction =
  si_user :: "(jsstring \<times> jsstring) option"
  si_ongoing :: bool

record generate_request =
  rq_model :: jsstring
  rq_contents :: "content list"
  rq_systemInstruction :: system_instruction

definition build_request :: "generate_params \<Rightarrow> jsstring \<Rightarrow> generate_request" where
  "build_request params model =
     \<lparr>rq_model = model,
      rq_contents =
        map (\<lambda>message. \<lparr>ct_parts = [TextPart (h_content message)], ct_role = h_role message\<rparr>)
            (gp_conversationHistory params) @
        [\<lparr>ct_parts = (case gp_image params of None \<Rightarrow> []
                       | Some (base64, mimeType) \<Rightarrow> [InlineData base64 mimeType]) @
                     [TextPart (gp_prompt params)],
          ct_role = RoleUser\<rparr>],
      rq_systemInstruction =
        \<lparr>si_user = (case gp_user params of None \<Rightarrow> None | Some u \<Rightarrow> Some (u_name u, u_surname u)),
         si_ongoing = (gp_conversationHistory params \<noteq> [])\<rparr>\<rparr>"

text \<open>
  What the provider does with a request: the awaited call \<open>generateContentStream\<close> fails,
  or it returns a stream that yields chunks (their texts, strings by the generator's declared
  type) and then ends or raises.
\<close>

datatype stream_end = Completed | Failed

datatype stream_result = CallFailed | Stream "jsstring list" stream_end

type_synonym generate_api = "generate_request \<Rightarrow> stream_result"

text \<open>
  The body of the loop over the models is a \<open>try\<close> block, which yields the chunks and
  returns, and a \<open>catch\<close> block, which yields the apology for the backup model and lets
  the loop go on.
\<close>

definition try_generate :: "generate_api \<Rightarrow> generate_params \<Rightarrow> jsstring \<Rightarrow> jsstring list \<times> unit completion" where
  "try_generate api params model =
     (case api (build_request params model) of
        CallFailed \<Rightarrow> ([], Throw)
      | Stream chunks Completed \<Rightarrow> (chunks, Return ())
      | Stream chunks Failed \<Rightarrow> (chunks, Throw))"

definition catch_generate :: "jsstring \<Rightarrow> jsstring list \<times> unit completion" where
  "catch_generate model = (if model = BACKUP_MODEL then [apology] else [], Normal)"

definition try_catch ::
  "'y list \<times> 'a completion \<Rightarrow> 'y list \<times> 'a completion \<Rightarrow> 'y list \<times> 'a completion" where
  "try_catch body handler =
     (case body of (ys, Throw) \<Rightarrow> (ys @ fst handler, snd handler) | _ \<Rightarrow> body)"

fun generate_for_models ::
  "generate_api \<Rightarrow> generate_params \<Rightarrow> jsstring list \<Rightarrow> jsstring list \<times> unit completion" where
  "generate_for_models api params [] = ([], Normal)"
| "generate_for_models api params (model # models) =
     (case try_catch (try_generate api params model) (catch_generate model) of
        (ys, Normal) \<Rightarrow>
          (case generate_for_models api params models of (zs, c) \<Rightarrow> (ys @ zs, c))
      | (ys, c) \<Rightarrow> (ys, c))"

definition generateResponseStream :: "generate_api \<Rightarrow> generate_params \<Rightarrow> jsstring list \<times> unit completion" where
  "generateResponseStream api params =
     generate_for_models api params [PRIMARY_MODEL, BACKUP_MODEL]"

text \<open>
  \<open>generateTitle\<close>. The provider's call fails or gives a response whose \<open>text\<close> may be
  undefined, in which case \<open>response.text.replace\<close> raises inside the \<open>try\<close> block.
\<close>

datatype title_response = TitleCallFailed | TitleResponse "jsstring option"

type_synonym title_api = "jsstring \<Rightarrow> jsstring \<Rightarrow> title_response"

definition title_contents :: "jsstring \<Rightarrow> jsstring" where
  "title_contents conversationSnippet =
     str ''Based on the following conversation, create a short, concise title (5 words maximum) for this chat. Do not include quotation marks or the word '' @
     [0x22] @ str ''title'' @ [0x22] @ str '' in your response. Conversation: '' @
     [0x22] @ conversationSnippet @ [0x22]"

text \<open>\<open>.replace(/["*#]/g, '')\<close>\<close>

definition replace_marks :: "jsstring \<Rightarrow> jsstring" where
  "replace_marks s = filter (\<lambda>c. c \<notin> {0x22, 0x2A, 0x23}) s"

definition try_title :: "title_api \<Rightarrow> jsstring \<Rightarrow> jsstring \<Rightarrow> jsstring completion" where
  "try_title api conversationSnippet model =
     (case api model (title_contents conversationSnippet) of
        TitleCallFailed \<Rightarrow> Throw
      | TitleResponse None \<Rightarrow> Throw
      | TitleResponse (Some t) \<Rightarrow> Return (trim (replace_marks t)))"

definition catch_title :: "jsstring \<Rightarrow> jsstring completion" where
  "catch_title model = (if model = BACKUP_MODEL then Return (str ''New Conversation'') else Normal)"

fun title_for_models :: "title_api \<Rightarrow> jsstring \<Rightarrow> jsstring list \<Rightarrow> jsstring completion" where
  "title_for_models api conversationSnippet [] = Normal"
| "title_for_models api conversationSnippet (model # models) =
     (case (case try_title api conversationSnippet model of Throw \<Rightarrow> catch_title model | c \<Rightarrow> c) of
        Normal \<Rightarrow> title_for_models api conversationSnippet models
      | c \<Rightarrow> c)"

definition generateTitle :: "title_api \<Rightarrow> jsstring \<Rightarrow> jsstring completion" where
  "generateTitle api conversationSnippet =
     (case title_for_models api conversationSnippet [PRIMARY_MODEL, BACKUP_MODEL] of
        Normal \<Rightarrow> Return (str ''New Conversation'')
      | c \<Rightarrow> c)"

subsection \<open>The chat hook (useChat.ts)\<close>

datatype MessageSender = USER | AI

record message =
  m_id :: jsstring
  m_sender :: MessageSender
  m_text :: jsstring
  m_timestamp :: int
  m_image :: "jsstring option"

record conversation =
  c_id :: jsstring
  c_title :: jsstring
  c_messages :: "message list"
  c_createdAt :: int

text \<open>
  The provider's state, and \<open>saved\<close>: the conversations handed to the remote upsert by
  \<open>saveConversationToDB\<close>, in the order of the calls (a call without a signed-in user
  returns before the upsert).
\<close>

record chat_state =
  conversations :: "conversation list"
  activeConversationId :: "jsstring option"
  isLoading :: bool
  saved :: "conversation list"

definition updateConversation ::
  "user option \<Rightarrow> jsstring \<Rightarrow> (conversation \<Rightarrow> conversation) \<Rightarrow> chat_state \<Rightarrow> chat_state" where
  "updateConversation usr ident updateFn st =
     st\<lparr>conversations :=
          map (\<lambda>conv. if c_id conv = ident then updateFn conv else conv) (conversations st),
        saved := saved st @
          (case usr of
             None \<Rightarrow> []
           | Some u \<Rightarrow> map updateFn (filter (\<lambda>conv. c_id conv = ident) (conversations st)))\<rparr>"

text \<open>
  What \<open>sendMessage\<close> reads from outside: the clock at each \<open>Date.now()\<close>, the result of
  reading the attached file (\<open>None\<close> when the reader fails), \<open>crypto.randomUUID()\<close>, the
  \<open>conversations\<close> captured by the callback (which is not among its dependencies), the
  provider behind both service functions, and the row \<open>refreshConversationFromDB\<close> selects.
\<close>

record send_env =
  now_user_id :: int
  now_user_timestamp :: int
  fileToBase64 :: "jsstring option"
  randomUUID :: jsstring
  now_createdAt :: int
  now_ai_id :: int
  now_ai_timestamp :: int
  now_fallback :: int
  closure_conversations :: "conversation list"
  generate_api :: generate_api
  title_api :: title_api
  refresh_select :: "conversation remote"

datatype promise = Fulfilled | Rejected

definition userMessage_of :: "send_env \<Rightarrow> jsstring \<Rightarrow> jsstring option \<Rightarrow> message" where
  "userMessage_of env txt img =
     \<lparr>m_id = str ''msg-'' @ numberToString (now_user_id env), m_sender = USER, m_text = txt,
      m_timestamp = now_user_timestamp env, m_image = img\<rparr>"

text \<open>
  The first step: a new conversation when no conversation is active (\<open>!conversationId\<close>
  holds for \<open>null\<close> and for the empty string), the user message appended otherwise. It
  gives the conversation id, \<open>needsTitle\<close> and the state.
\<close>

definition addUserMessage :: "send_env \<Rightarrow> user \<Rightarrow> message \<Rightarrow> chat_state \<Rightarrow> jsstring \<times> bool \<times> chat_state" where
  "addUserMessage env u userMessage st =
     (case (case activeConversationId st of None \<Rightarrow> None | Some i \<Rightarrow> if i = [] then None else Some i) of
        None \<Rightarrow>
          let newConversation = \<lparr>c_id = randomUUID env, c_title = str ''New Conversation'',
                                  c_messages = [userMessage], c_createdAt = now_createdAt env\<rparr>
          in (randomUUID env, True,
              st\<lparr>conversations := newConversation # conversations st,
                 activeConversationId := Some (randomUUID env),
                 saved := saved st @ [newConversation]\<rparr>)
      | Some conversationId \<Rightarrow>
          (conversationId, False,
           updateConversation (Some u) conversationId
             (\<lambda>conv. conv\<lparr>c_messages := c_messages conv @ [userMessage]\<rparr>) st))"

definition aiMessageId_of :: "send_env \<Rightarrow> jsstring" where
  "aiMessageId_of env = str ''msg-'' @ numberToString (now_ai_id env) @ str ''-ai''"

definition aiMessagePlaceholder :: "send_env \<Rightarrow> message" where
  "aiMessagePlaceholder env =
     \<lparr>m_id = aiMessageId_of env, m_sender = AI, m_text = [],
      m_timestamp = now_ai_timestamp env, m_image = None\<rparr>"

definition addPlaceholder :: "send_env \<Rightarrow> user \<Rightarrow> jsstring \<Rightarrow> chat_state \<Rightarrow> chat_state" where
  "addPlaceholder env u conversationId st =
     updateConversation (Some u) conversationId
       (\<lambda>conv. conv\<lparr>c_messages := c_messages conv @ [aiMessagePlaceholder env]\<rparr>) st"

text \<open>
  The history sent to the provider, from the captured \<open>conversations\<close> and the captured
  \<open>activeConversationId\<close> (\<open>active\<close>).
\<close>

definition conversationHistory_of ::
  "send_env \<Rightarrow> jsstring option \<Rightarrow> jsstring \<Rightarrow> message \<Rightarrow> jsstring \<Rightarrow> history_message list" where
  "conversationHistory_of env active conversationId userMessage aiMessageId =
     (let currentConversation =
            (case find (\<lambda>c. c_id c = conversationId) (closure_conversations env) of
               Some c \<Rightarrow> Some c
             | None \<Rightarrow>
                 if Some conversationId = active
                 then Some \<lparr>c_id = conversationId, c_title = str ''New Conversation'',
                            c_messages = [userMessage], c_createdAt = now_fallback env\<rparr>
                 else None)
      in case currentConversation of
           None \<Rightarrow> []
         | Some c \<Rightarrow>
             map (\<lambda>msg. \<lparr>h_role = (if m_sender msg = USER then RoleUser else RoleModel),
                          h_content = m_text msg\<rparr>)
                 (filter (\<lambda>msg. m_id msg \<noteq> aiMessageId \<and> m_text msg \<noteq> [] \<and> trim (m_text msg) \<noteq> [])
                         (c_messages c)))"

text \<open>The update a chunk causes, and the loop over the chunks.\<close>

definition setPlaceholderText :: "jsstring \<Rightarrow> jsstring \<Rightarrow> conversation \<Rightarrow> conversation" where
  "setPlaceholderText aiMessageId fullResponse conv =
     conv\<lparr>c_messages :=
            map (\<lambda>m. if m_id m = aiMessageId then m\<lparr>m_text := fullResponse\<rparr> else m) (c_messages conv)\<rparr>"

fun streamChunks ::
  "user \<Rightarrow> jsstring \<Rightarrow> jsstring \<Rightarrow> jsstring list \<Rightarrow> jsstring \<times> chat_state \<Rightarrow> jsstring \<times> chat_state" where
  "streamChunks u conversationId aiMessageId [] (fullResponse, st) = (fullResponse, st)"
| "streamChunks u conversationId aiMessageId (chunk # chunks) (fullResponse, st) =
     streamChunks u conversationId aiMessageId chunks
       (fullResponse @ chunk,
        updateConversation (Some u) conversationId
          (setPlaceholderText aiMessageId (fullResponse @ chunk)) st)"

definition refreshConversationFromDB :: "send_env \<Rightarrow> jsstring \<Rightarrow> chat_state \<Rightarrow> chat_state" where
  "refreshConversationFromDB env conversationId st =
     (case refresh_select env of
        Data d \<Rightarrow> st\<lparr>conversations :=
                       map (\<lambda>conv. if c_id conv = conversationId then d else conv) (conversations st)\<rparr>
      | _ \<Rightarrow> st)"

text \<open>
  The state when the \<open>for await\<close> loop over the stream has ended, with the accumulated
  response and the way the stream ended.
\<close>

definition stream_params ::
  "send_env \<Rightarrow> user \<Rightarrow> jsstring \<Rightarrow> js_file option \<Rightarrow> message \<Rightarrow> jsstring option \<Rightarrow> jsstring \<Rightarrow>
   jsstring \<Rightarrow> generate_params" where
  "stream_params env u txt file userMessage active conversationId aiMessageId =
     \<lparr>gp_prompt = txt,
      gp_image = (case (file, m_image userMessage) of
                    (Some f, Some base64) \<Rightarrow> Some (base64, file_type f)
                  | _ \<Rightarrow> None),
      gp_user = Some u,
      gp_conversationHistory =
        conversationHistory_of env active conversationId userMessage aiMessageId\<rparr>"

definition streamResponse ::
  "send_env \<Rightarrow> user \<Rightarrow> jsstring \<Rightarrow> js_file option \<Rightarrow> message \<Rightarrow> jsstring option \<Rightarrow> jsstring \<Rightarrow>
   jsstring \<Rightarrow> chat_state \<Rightarrow> unit completion \<times> jsstring \<times> chat_state" where
  "streamResponse env u txt file userMessage active conversationId aiMessageId st =
     (let stream = generateResponseStream (generate_api env)
            (stream_params env u txt file userMessage active conversationId aiMessageId)
      in (snd stream, streamChunks u conversationId aiMessageId (fst stream) ([], st)))"

text \<open>The \<open>try\<close> block of \<open>sendMessage\<close>: how it ends, and the state it leaves.\<close>

definition try_send ::
  "send_env \<Rightarrow> user \<Rightarrow> jsstring \<Rightarrow> js_file option \<Rightarrow> message \<Rightarrow> jsstring option \<Rightarrow> jsstring \<Rightarrow>
   bool \<Rightarrow> jsstring \<Rightarrow> chat_state \<Rightarrow> unit completion \<times> chat_state" where
  "try_send env u txt file userMessage active conversationId needsTitle aiMessageId st =
     (case streamResponse env u txt file userMessage active conversationId aiMessageId st of
        (Throw, fullResponse, st1) \<Rightarrow> (Throw, st1)
      | (_, fullResponse, st1) \<Rightarrow>
          if needsTitle \<and> fullResponse \<noteq> []
          then (case generateTitle (title_api env) (txt @ [0x0A, 0x0A] @ fullResponse) of
                  Return newTitle \<Rightarrow>
                    (Normal, refreshConversationFromDB env conversationId
                       (updateConversation (Some u) conversationId
                          (\<lambda>conv. conv\<lparr>c_title := newTitle\<rparr>) st1))
                | _ \<Rightarrow> (Throw, st1))
          else (Normal, refreshConversationFromDB env conversationId st1))"

definition sendMessage ::
  "send_env \<Rightarrow> user option \<Rightarrow> jsstring \<Rightarrow> js_file option \<Rightarrow> chat_state \<Rightarrow> chat_state \<times> promise" where
  "sendMessage env usr txt file st =
     (case usr of
        None \<Rightarrow> (st, Fulfilled)
      | Some u \<Rightarrow>
          (case (case file of None \<Rightarrow> Some None
                 | Some f \<Rightarrow> (case fileToBase64 env of None \<Rightarrow> None | Some b \<Rightarrow> Some (Some b))) of
             None \<Rightarrow> (st\<lparr>isLoading := True\<rparr>, Rejected)
           | Some img \<Rightarrow>
               let userMessage = userMessage_of env txt img;
                   added = addUserMessage env u userMessage (st\<lparr>isLoading := True\<rparr>);
                   conversationId = fst added;
                   needsTitle = fst (snd added);
                   aiMessageId = aiMessageId_of env;
                   placed = addPlaceholder env u conversationId (snd (snd added));
                   tried = try_send env u txt file userMessage (activeConversationId st)
                             conversationId needsTitle aiMessageId placed;
                   caught = (case fst tried of
                       Throw \<Rightarrow> updateConversation (Some u) conversationId
                                  (setPlaceholderText aiMessageId apology) (snd tried)
                     | _ \<Rightarrow> snd tried)
               in (caught\<lparr>isLoading := False\<rparr>, Fulfilled)))"

subsection \<open>The auth hook (useAuth.ts)\<close>

text \<open>
  An error is kept as its \<open>message\<close>, which a thrown value may lack. The outcomes of the
  remote calls of \<open>updateUser\<close>: of \<open>getSession\<close>; of the \<open>n\<close>-th call of
  \<open>supabase.auth.updateUser\<close> (an error in the result, an exception, a result without
  user data, a result with it); and of each \<open>getUser\<close> of the verification that follows a
  result with user data (an error, no user, a user whose metadata show no change, a user
  whose metadata changed, an exception).
\<close>

type_synonym js_error = "jsstring option"

datatype session_outcome = SessionError | SessionNoUser | SessionUser | SessionThrew js_error

datatype update_outcome = UpdateError js_error | UpdateThrew js_error | UpdateNoUser | UpdateUser

datatype verify_outcome =
  VerifyError | VerifyNoUser | VerifyNoChanges | VerifyChanged user | VerifyThrew js_error

record auth_env =
  getSession :: session_outcome
  auth_updateUser :: "nat \<Rightarrow> update_outcome"
  auth_getUser :: "nat \<Rightarrow> nat \<Rightarrow> verify_outcome"

record update_result =
  success :: bool
  error_message :: "jsstring option"

text \<open>
  The state of a run of \<open>updateUser\<close>: the hook's \<open>user\<close> and the attempt numbers at
  which the remote auth update has been called.
\<close>

record auth_state =
  auth_user :: "user option"
  update_calls :: "nat list"

definition maxAttempts :: nat where
  "maxAttempts = 3"

text \<open>
  The verification loop, \<open>for (verifyAttempt = 1; verifyAttempt <= 3; verifyAttempt++)\<close>:
  it sets the user and stops at the first verified change; an exception leaves it.
\<close>

fun verify_loop :: "(nat \<Rightarrow> verify_outcome) \<Rightarrow> nat list \<Rightarrow> auth_state \<Rightarrow> js_error + auth_state" where
  "verify_loop getUser [] st = Inr st"
| "verify_loop getUser (verifyAttempt # rest) st =
     (case getUser verifyAttempt of
        VerifyError \<Rightarrow> verify_loop getUser rest st
      | VerifyNoUser \<Rightarrow> verify_loop getUser rest st
      | VerifyNoChanges \<Rightarrow> verify_loop getUser rest st
      | VerifyChanged formattedUser \<Rightarrow> Inr (st\<lparr>auth_user := Some formattedUser\<rparr>)
      | VerifyThrew e \<Rightarrow> Inl e)"

text \<open>What follows the \<open>while\<close> loop: the failure result, from \<open>lastError\<close>.\<close>

definition all_attempts_failed :: "js_error option \<Rightarrow> update_result" where
  "all_attempts_failed lastError =
     \<lparr>success = False,
      error_message = (case lastError of
                         Some e \<Rightarrow> e
                       | None \<Rightarrow> Some (str ''All auth update attempts failed''))\<rparr>"

text \<open>
  The retry loop, \<open>while (updateAttempts < maxAttempts)\<close>, from the values of
  \<open>updateAttempts\<close> and \<open>lastError\<close>. An error in the result retries while attempts remain
  and leaves the loop otherwise; a result without user data leaves the loop; an exception,
  from the call or from the verification, is caught and the loop condition is tested
  again.
\<close>

function update_loop ::
  "auth_env \<Rightarrow> nat \<Rightarrow> js_error option \<Rightarrow> auth_state \<Rightarrow> update_result \<times> auth_state" where
  "update_loop env updateAttempts lastError st =
     (if updateAttempts < maxAttempts
      then
        (let attempt = updateAttempts + 1;
             called = st\<lparr>update_calls := update_calls st @ [attempt]\<rparr>
         in case auth_updateUser env attempt of
              UpdateError e \<Rightarrow>
                if attempt < maxAttempts then update_loop env attempt (Some e) called
                else (all_attempts_failed (Some e), called)
            | UpdateUser \<Rightarrow>
                (case verify_loop (auth_getUser env attempt) [1, 2, 3] called of
                   Inr verified \<Rightarrow> (\<lparr>success = True, error_message = None\<rparr>, verified)
                 | Inl e \<Rightarrow> update_loop env attempt (Some e) called)
            | UpdateNoUser \<Rightarrow> (all_attempts_failed lastError, called)
            | UpdateThrew e \<Rightarrow> update_loop env attempt (Some e) called)
      else (all_attempts_failed lastError, st))"
  by pat_completeness auto
termination
  by (relation "measure (\<lambda>(env, updateAttempts, lastError, st). maxAttempts - updateAttempts)") auto

declare update_loop.simps [simp del]

text \<open>The error of a failed attempt: one that gave an error or raised.\<close>

fun attempt_error :: "update_outcome \<Rightarrow> js_error option" where
  "attempt_error (UpdateError e) = Some e"
| "attempt_error (UpdateThrew e) = Some e"
| "attempt_error _ = None"

text \<open>
  \<open>updateUser\<close>: the session is checked first; an exception outside the loop is caught by
  the outer \<open>catch\<close>, which reports the message of an \<open>Error\<close> and a fixed text for any
  other value.
\<close>

definition updateUser :: "auth_env \<Rightarrow> auth_state \<Rightarrow> update_result \<times> auth_state" where
  "updateUser env st =
     (case getSession env of
        SessionError \<Rightarrow> (\<lparr>success = False, error_message = Some (str ''Authentication session error'')\<rparr>, st)
      | SessionNoUser \<Rightarrow> (\<lparr>success = False, error_message = Some (str ''No authenticated user'')\<rparr>, st)
      | SessionThrew e \<Rightarrow>
          (\<lparr>success = False,
            error_message = (case e of Some m \<Rightarrow> Some m
                             | None \<Rightarrow> Some (str ''An unexpected error occurred''))\<rparr>, st)
      | SessionUser \<Rightarrow> update_loop env 0 None st)"

section \<open>Example data\<close>

definition ex_user :: user where
  "ex_user = \<lparr>u_id = str ''u1'', u_name = str ''Ada'', u_surname = str ''Kaya'',
              u_email = str ''ada@example.com'', u_avatar = None\<rparr>"

definition ex_file :: js_file where
  "ex_file = \<lparr>file_name = str ''scan.v2.pdf'', file_type = str ''application/pdf'', file_size = 2048\<rparr>"

text \<open>Two file rows, the first expired at time \<open>2000\<close> and the second not, with their objects.\<close>

definition ex_database :: database where
  "ex_database =
     \<lparr>db_files =
        [\<lparr>f_id = str ''f1'', f_user_id = str ''u1'', f_name = str ''a.txt'', f_type = str ''text/plain'',
          f_size = 1, f_file_path = str ''u1/1-x.txt'', f_expires_at = 1000, f_created_at = 0\<rparr>,
         \<lparr>f_id = str ''f2'', f_user_id = str ''u1'', f_name = str ''b.txt'', f_type = str ''text/plain'',
          f_size = 2, f_file_path = str ''u1/2-y.txt'', f_expires_at = 3000, f_created_at = 0\<rparr>],
      db_objects =
        [\<lparr>o_bucket_id = str ''user-files'', o_name = str ''u1/1-x.txt''\<rparr>,
         \<lparr>o_bucket_id = str ''user-files'', o_name = str ''u1/2-y.txt''\<rparr>,
         \<lparr>o_bucket_id = str ''avatars'', o_name = str ''u1/1-x.txt''\<rparr>]\<rparr>"

definition ex_files_state :: files_state where
  "ex_files_state = \<lparr>files = [], files_isLoading = False\<rparr>"

definition ex_task :: project_task where
  "ex_task = \<lparr>t_id = str ''t1'', t_text = str ''call back'', t_completed = False, t_createdAt = 5\<rparr>"

definition ex_params :: generate_params where
  "ex_params = \<lparr>gp_prompt = str ''Merhaba'', gp_image = None, gp_user = Some ex_user,
                gp_conversationHistory = []\<rparr>"

text \<open>A provider whose primary model is down and whose backup model answers in two chunks.\<close>

definition ex_backup_api :: generate_api where
  "ex_backup_api r =
     (if rq_model r = PRIMARY_MODEL then CallFailed else Stream [str ''Mer'', str ''haba''] Completed)"

definition ex_user_message :: message where
  "ex_user_message = \<lparr>m_id = str ''msg-1699999990000'', m_sender = USER, m_text = str ''Hello'',
     m_timestamp = 1699999990000, m_image = None\<rparr>"

definition ex_ai_message :: message where
  "ex_ai_message = \<lparr>m_id = str ''msg-1699999990500-ai'', m_sender = AI, m_text = str ''Hi Ada'',
     m_timestamp = 1699999990500, m_image = None\<rparr>"

definition ex_conversation :: conversation where
  "ex_conversation = \<lparr>c_id = str ''c1'', c_title = str ''Greeting'',
     c_messages = [ex_user_message, ex_ai_message], c_createdAt = 1699999990000\<rparr>"

definition ex_chat_state :: chat_state where
  "ex_chat_state = \<lparr>conversations = [ex_conversation], activeConversationId = Some (str ''c1''),
     isLoading = False, saved = []\<rparr>"

text \<open>
  An environment in which the backup model answers; one whose clock stands, during the
  whole send, at the value it had when the earlier assistant message was made (a clock that
  was set back, or another device's clock); and one in which
  every call for a response fails and a title is given only for the prompt followed by the
  apology.
\<close>

definition ex_env :: send_env where
  "ex_env = \<lparr>now_user_id = 1700000000000, now_user_timestamp = 1700000000000,
     fileToBase64 = None, randomUUID = str ''c2'', now_createdAt = 1700000000001,
     now_ai_id = 1700000000002, now_ai_timestamp = 1700000000002, now_fallback = 1700000000003,
     closure_conversations = [ex_conversation], generate_api = ex_backup_api,
     title_api = (\<lambda>model contents. TitleCallFailed), refresh_select = Error\<rparr>"

definition ex_env_same_clock :: send_env where
  "ex_env_same_clock = ex_env
     \<lparr>now_user_id := 1699999990500, now_user_timestamp := 1699999990500,
      now_createdAt := 1699999990500, now_ai_id := 1699999990500,
      now_ai_timestamp := 1699999990500, now_fallback := 1699999990500\<rparr>"

definition ex_env_down :: send_env where
  "ex_env_down = ex_env
     \<lparr>generate_api := (\<lambda>r. CallFailed),
      title_api := (\<lambda>model contents.
         if contents = title_contents (str ''Merhaba'' @ [0x0A, 0x0A] @ apology)
         then TitleResponse (Some (str ''*Failed request*'')) else TitleCallFailed)\<rparr>"

definition ex_new_chat_state :: chat_state where
  "ex_new_chat_state = ex_chat_state\<lparr>activeConversationId := None\<rparr>"

text \<open>A backend whose auth update gives an error twice and raises the third time.\<close>

definition ex_auth_env :: auth_env where
  "ex_auth_env = \<lparr>getSession = SessionUser,
     auth_updateUser = (\<lambda>n. if n = 3 then UpdateThrew (Some (str ''Failed to fetch''))
                             else UpdateError (Some (str ''Rate limit''))),
     auth_getUser = (\<lambda>n k. VerifyNoChanges)\<rparr>"

definition ex_auth_state :: auth_state where
  "ex_auth_state = \<lparr>auth_user = Some ex_user, update_calls = []\<rparr>"

section \<open>Verification\<close>

subsection \<open>Task cleanup\<close>

lemma sql_and_Some: "sql_and (Some a) (Some b) = Some (a \<and> b)"
  by (cases a; cases b) simp_all

lemma delete_old_completed_tasks_where_iff:
  "sql_true (delete_old_completed_tasks_where now r) = completed_over_7_days_ago now r"
  by (cases "p_completed_at r"; cases "p_completed r")
     (simp_all add: delete_old_completed_tasks_where_def completed_over_7_days_ago_def
        sql_true_def sql_is_not_null_def interval_7_days_def sql_and_Some)

text \<open>
  C6. The task cleanup function deletes exactly the rows that are completed and whose
  non-null completion time is earlier than seven days before the current time: the table
  afterwards is the table before without those rows, in the same order and with the
  same multiplicities. Every incomplete row, and every row completed within the last seven
  days, is still in the table.
\<close>

theorem delete_old_completed_tasks_exact:
  "delete_old_completed_tasks now projects =
     filter (\<lambda>r. \<not> completed_over_7_days_ago now r) projects
   \<and> (\<forall>r \<in> set projects. \<not> p_completed r \<longrightarrow>
         r \<in> set (delete_old_completed_tasks now projects))
   \<and> (\<forall>r \<in> set projects. \<forall>t. p_completed_at r = Some t \<and> now - 7 * 24 * 60 * 60 * 1000000 \<le> t \<longrightarrow>
         r \<in> set (delete_old_completed_tasks now projects))"
proof -
  have eq: "delete_old_completed_tasks now projects =
      filter (\<lambda>r. \<not> completed_over_7_days_ago now r) projects"
    by (simp add: delete_old_completed_tasks_def delete_old_completed_tasks_where_iff)
  have incomplete: "\<forall>r \<in> set projects. \<not> p_completed r \<longrightarrow>
      r \<in> set (delete_old_completed_tasks now projects)"
    by (simp add: eq completed_over_7_days_ago_def)
  have recent: "\<forall>r \<in> set projects. \<forall>t. p_completed_at r = Some t \<and> now - 7 * 24 * 60 * 60 * 1000000 \<le> t \<longrightarrow>
      r \<in> set (delete_old_completed_tasks now projects)"
    by (auto simp add: eq completed_over_7_days_ago_def)
  from eq incomplete recent show ?thesis by blast
qed

theorem delete_old_completed_tasks_exact_witness:
  "(let pending = \<lparr>p_id = str ''a'', p_user_id = str ''u'', p_text = str ''x'', p_completed = False,
        p_created_at = 0, p_updated_at = 0, p_completed_at = None\<rparr>;
       recent = \<lparr>p_id = str ''b'', p_user_id = str ''u'', p_text = str ''y'', p_completed = True,
        p_created_at = 0, p_updated_at = 500000000000, p_completed_at = Some 500000000000\<rparr>;
       old = \<lparr>p_id = str ''c'', p_user_id = str ''u'', p_text = str ''z'', p_completed = True,
        p_created_at = 0, p_updated_at = 1, p_completed_at = Some 1\<rparr>
    in pending \<in> set [pending, recent, old] \<and> \<not> p_completed pending
     \<and> recent \<in> set [pending, recent, old] \<and> p_completed_at recent = Some 500000000000
     \<and> 1000000000000 - 7 * 24 * 60 * 60 * 1000000 \<le> (500000000000::int)
     \<and> delete_old_completed_tasks 1000000000000 [pending, recent, old] = [pending, recent])"
  using delete_old_completed_tasks_exact [of 1000000000000
      "[\<lparr>p_id = str ''a'', p_user_id = str ''u'', p_text = str ''x'', p_completed = False,
        p_created_at = 0, p_updated_at = 0, p_completed_at = None\<rparr>,
        \<lparr>p_id = str ''b'', p_user_id = str ''u'', p_text = str ''y'', p_completed = True,
        p_created_at = 0, p_updated_at = 500000000000, p_completed_at = Some 500000000000\<rparr>,
        \<lparr>p_id = str ''c'', p_user_id = str ''u'', p_text = str ''z'', p_completed = True,
        p_created_at = 0, p_updated_at = 1, p_completed_at = Some 1\<rparr>]"]
  by (simp add: completed_over_7_days_ago_def Let_def)

subsection \<open>The completion trigger\<close>

lemma update_completed_at_cases:
  "update_completed_at now old new =
     (if p_completed new \<and> \<not> p_completed old then new\<lparr>p_completed_at := Some now, p_updated_at := now\<rparr>
      else if \<not> p_completed new \<and> p_completed old then new\<lparr>p_completed_at := None, p_updated_at := now\<rparr>
      else new\<lparr>p_updated_at := now\<rparr>)"
  by (cases "p_completed new"; cases "p_completed old")
     (simp_all add: update_completed_at_def sql_true_def sql_eq_def sql_is_null_def)

lemma trigger_keeps_invariant:
  assumes "completed_at_invariant old" and "p_completed_at new = p_completed_at old"
  shows "completed_at_invariant (update_completed_at now old new)"
  using assms
  by (cases "p_completed new"; cases "p_completed old")
     (simp_all add: update_completed_at_cases completed_at_invariant_def)

lemma update_project_invariant:
  assumes "completed_at_invariant old" and "set_completed_at u = None"
  shows "completed_at_invariant (update_project now u old)"
  unfolding update_project_def
  by (rule trigger_keeps_invariant [OF assms(1)])
     (simp add: handle_projects_updated_at_def apply_set_def assms(2))

lemma update_project_seq_invariant:
  "completed_at_invariant r \<Longrightarrow> \<forall>(now, u) \<in> set us. set_completed_at u = None \<Longrightarrow>
   completed_at_invariant (update_project_seq us r)"
proof (induction us arbitrary: r)
  case Nil
  then show ?case by simp
next
  case (Cons a us)
  obtain now u where a: "a = (now, u)" by (cases a)
  from Cons.prems(2) a have u: "set_completed_at u = None" by simp
  have "completed_at_invariant (update_project now u r)"
    by (rule update_project_invariant [OF Cons.prems(1) u])
  moreover from Cons.prems(2) have "\<forall>(now, u) \<in> set us. set_completed_at u = None" by simp
  ultimately show ?case using Cons.IH a by simp
qed

lemma insert_project_invariant:
  "completed_at_invariant (insert_project now new_id user_id txt False)"
  by (simp add: completed_at_invariant_def insert_project_def)

text \<open>
  C8 (as amended). A project row inserted with \<open>completed = false\<close> satisfies the
  invariant that \<open>completed_at\<close> is non-null if and only if \<open>completed\<close> is true, and
  the before-update trigger preserves it through every update that does not itself assign
  \<open>completed_at\<close>: through any sequence of such updates of the inserted row, and in one
  firing whenever the proposed row carries the stored \<open>completed_at\<close>. In every firing
  the trigger sets \<open>completed_at\<close> to the current time when \<open>completed\<close> flips from
  false to true and resets it to null when \<open>completed\<close> flips from true to false.
\<close>

theorem update_completed_at_preserves_invariant:
  "((\<forall>(now, u) \<in> set us. set_completed_at u = None) \<longrightarrow>
      completed_at_invariant (update_project_seq us (insert_project t new_id user_id txt False)))
   \<and> (completed_at_invariant old \<and> p_completed_at new = p_completed_at old \<longrightarrow>
      completed_at_invariant (update_completed_at now old new))
   \<and> (\<not> p_completed old \<and> p_completed new \<longrightarrow>
      p_completed_at (update_completed_at now old new) = Some now)
   \<and> (p_completed old \<and> \<not> p_completed new \<longrightarrow>
      p_completed_at (update_completed_at now old new) = None)"
proof -
  have run: "(\<forall>(now, u) \<in> set us. set_completed_at u = None) \<longrightarrow>
      completed_at_invariant (update_project_seq us (insert_project t new_id user_id txt False))"
    using update_project_seq_invariant [OF insert_project_invariant] by blast
  have step: "completed_at_invariant old \<and> p_completed_at new = p_completed_at old \<longrightarrow>
      completed_at_invariant (update_completed_at now old new)"
    using trigger_keeps_invariant by blast
  have up: "\<not> p_completed old \<and> p_completed new \<longrightarrow>
      p_completed_at (update_completed_at now old new) = Some now"
    by (simp add: update_completed_at_cases)
  have down: "p_completed old \<and> \<not> p_completed new \<longrightarrow>
      p_completed_at (update_completed_at now old new) = None"
    by (simp add: update_completed_at_cases)
  from run step up down show ?thesis by blast
qed

theorem update_completed_at_preserves_invariant_witness:
  "set_completed_at \<lparr>set_text = None, set_completed = Some True, set_updated_at = Some 9,
                     set_completed_at = None\<rparr> = None
   \<and> set_completed_at \<lparr>set_text = None, set_completed = Some False, set_updated_at = Some 19,
                     set_completed_at = None\<rparr> = None
   \<and> completed_at_invariant
        (update_project_seq
           [(10, \<lparr>set_text = None, set_completed = Some True, set_updated_at = Some 9,
                  set_completed_at = None\<rparr>),
            (20, \<lparr>set_text = None, set_completed = Some False, set_updated_at = Some 19,
                  set_completed_at = None\<rparr>)]
           (insert_project 1 (str ''a'') (str ''u'') (str ''x'') False))
   \<and> completed_at_invariant (insert_project 1 (str ''a'') (str ''u'') (str ''x'') False)
   \<and> \<not> p_completed (insert_project 1 (str ''a'') (str ''u'') (str ''x'') False)
   \<and> p_completed ((insert_project 1 (str ''a'') (str ''u'') (str ''x'') False)\<lparr>p_completed := True\<rparr>)
   \<and> p_completed_at (update_completed_at 10
          (insert_project 1 (str ''a'') (str ''u'') (str ''x'') False)
          ((insert_project 1 (str ''a'') (str ''u'') (str ''x'') False)\<lparr>p_completed := True\<rparr>)) = Some 10
   \<and> completed_at_invariant (update_completed_at 10
          (insert_project 1 (str ''a'') (str ''u'') (str ''x'') False)
          ((insert_project 1 (str ''a'') (str ''u'') (str ''x'') False)\<lparr>p_completed := True\<rparr>))
   \<and> p_completed_at (update_completed_at 20
          ((insert_project 1 (str ''a'') (str ''u'') (str ''x'') False)
             \<lparr>p_completed := True, p_completed_at := Some 10\<rparr>)
          (insert_project 1 (str ''a'') (str ''u'') (str ''x'') False)) = None"
  using update_completed_at_preserves_invariant
      [of "[(10, \<lparr>set_text = None, set_completed = Some True, set_updated_at = Some 9,
                  set_completed_at = None\<rparr>),
            (20, \<lparr>set_text = None, set_completed = Some False, set_updated_at = Some 19,
                  set_completed_at = None\<rparr>)]"
          1 "str ''a''" "str ''u''" "str ''x''"
          "insert_project 1 (str ''a'') (str ''u'') (str ''x'') False"
          "(insert_project 1 (str ''a'') (str ''u'') (str ''x'') False)\<lparr>p_completed := True\<rparr>" 10]
    update_completed_at_preserves_invariant
      [of "[]" 1 "str ''a''" "str ''u''" "str ''x''"
          "(insert_project 1 (str ''a'') (str ''u'') (str ''x'') False)
             \<lparr>p_completed := True, p_completed_at := Some 10\<rparr>"
          "insert_project 1 (str ''a'') (str ''u'') (str ''x'') False" 20]
  by (simp add: insert_project_def completed_at_invariant_def update_project_def
      update_completed_at_cases handle_projects_updated_at_def apply_set_def)

text \<open>
  The claim as stated fails for an update that assigns \<open>completed_at\<close> without changing
  \<open>completed\<close>: the trigger takes its last branch and stores the assigned value.
\<close>

theorem update_completed_at_invariant_counterexample:
  "completed_at_invariant
     \<lparr>p_id = str ''a'', p_user_id = str ''u'', p_text = str ''x'', p_completed = False,
      p_created_at = 0, p_updated_at = 0, p_completed_at = None\<rparr>
   \<and> \<not> completed_at_invariant
     (update_completed_at 7
       \<lparr>p_id = str ''a'', p_user_id = str ''u'', p_text = str ''x'', p_completed = False,
        p_created_at = 0, p_updated_at = 0, p_completed_at = None\<rparr>
       \<lparr>p_id = str ''a'', p_user_id = str ''u'', p_text = str ''x'', p_completed = False,
        p_created_at = 0, p_updated_at = 0, p_completed_at = Some 5\<rparr>)"
  by (simp add: update_completed_at_cases completed_at_invariant_def)

subsection \<open>File expiry\<close>

lemma fold_cleanup_files:
  "db_files (fold cleanup_expired_file es db) = filter (\<lambda>f. f_id f \<notin> fst ` set es) (db_files db)"
proof (induction es arbitrary: db)
  case Nil
  then show ?case by simp
next
  case (Cons e es)
  have "fold cleanup_expired_file (e # es) db = fold cleanup_expired_file es (cleanup_expired_file e db)"
    by simp
  then show ?case
    by (simp only: Cons.IH) (auto simp add: cleanup_expired_file_def intro: filter_cong)
qed

lemma fold_cleanup_objects:
  "db_objects (fold cleanup_expired_file es db) =
     filter (\<lambda>obj. \<not> (o_bucket_id obj = str ''user-files'' \<and> o_name obj \<in> snd ` set es)) (db_objects db)"
proof (induction es arbitrary: db)
  case Nil
  then show ?case by simp
next
  case (Cons e es)
  have "fold cleanup_expired_file (e # es) db = fold cleanup_expired_file es (cleanup_expired_file e db)"
    by simp
  then show ?case
    by (simp only: Cons.IH) (auto simp add: cleanup_expired_file_def intro: filter_cong)
qed

lemma distinct_ids_expired:
  assumes "distinct (map f_id fs)" and "f \<in> set fs"
  shows "f_id f \<in> f_id ` {g \<in> set fs. P g} \<longleftrightarrow> P f"
proof
  assume "f_id f \<in> f_id ` {g \<in> set fs. P g}"
  then obtain g where g: "g \<in> set fs" "P g" "f_id g = f_id f" by auto
  from assms g have "g = f" by (meson distinct_map inj_onD)
  with g show "P f" by simp
next
  assume "P f"
  with assms(2) show "f_id f \<in> f_id ` {g \<in> set fs. P g}" by auto
qed

lemma cleanup_expired_files_files:
  assumes "distinct (map f_id (db_files db))"
  shows "db_files (cleanup_expired_files now db) = filter (\<lambda>f. \<not> f_expires_at f < now) (db_files db)"
proof -
  have "db_files (cleanup_expired_files now db) =
      filter (\<lambda>f. f_id f \<notin> f_id ` set (filter (\<lambda>f. f_expires_at f < now) (db_files db))) (db_files db)"
    by (simp add: cleanup_expired_files_def fold_cleanup_files select_expired_files_def image_image)
  also have "\<dots> = filter (\<lambda>f. \<not> f_expires_at f < now) (db_files db)"
    by (rule filter_cong) (simp_all add: distinct_ids_expired [OF assms])
  finally show ?thesis .
qed

lemma cleanup_expired_files_objects:
  "db_objects (cleanup_expired_files now db) =
     filter (\<lambda>obj. \<not> (o_bucket_id obj = str ''user-files'' \<and>
        o_name obj \<in> f_file_path ` {f \<in> set (db_files db). f_expires_at f < now})) (db_objects db)"
  by (simp add: cleanup_expired_files_def fold_cleanup_objects select_expired_files_def image_image)

lemma ms_of_us_of_ms: "ms_of_us (us_of_ms t) = t"
  by (simp add: ms_of_us_def us_of_ms_def)

lemma addFile_stored:
  "addFile (Some u) file now_name random (Data ()) now_expiry (Data (new_id, created)) removed (st, db) =
     (st\<lparr>files_isLoading := False,
         files := \<lparr>sf_id = new_id, sf_name = file_name file, sf_type = file_type file,
                   sf_size = file_size file, sf_base64 = [],
                   sf_expiresAt = now_expiry + 24 * 60 * 60 * 1000\<rparr> # files st\<rparr>,
      db\<lparr>db_objects := db_objects db @
            [\<lparr>o_bucket_id = str ''user-files'',
              o_name = u_id u @ str ''/'' @ numberToString now_name @ str ''-'' @ random @ str ''.'' @
                       split_pop (file_name file)\<rparr>],
         db_files := db_files db @
            [\<lparr>f_id = new_id, f_user_id = u_id u, f_name = file_name file, f_type = file_type file,
              f_size = file_size file,
              f_file_path = u_id u @ str ''/'' @ numberToString now_name @ str ''-'' @ random @ str ''.'' @
                       split_pop (file_name file),
              f_expires_at = us_of_ms now_expiry + 24 * 60 * 60 * 1000 * 1000,
              f_created_at = created\<rparr>]\<rparr>)"
  by (simp add: addFile_def Let_def ms_of_us_of_ms FILE_EXPIRATION_TIME_def)
     (simp add: us_of_ms_def)

lemma addFile_not_stored:
  "usr = None \<or> upload \<noteq> Data () \<or> (\<forall>p. inserted \<noteq> Data p) \<Longrightarrow>
   db_files (snd (addFile usr file now_name random upload now_expiry inserted removed (st, db))) = db_files db
   \<and> files (fst (addFile usr file now_name random upload now_expiry inserted removed (st, db))) = files st"
  by (cases usr; cases upload; cases inserted; cases removed)
     (auto simp add: addFile_def Let_def)

text \<open>
  C7. Every file row that \<open>addFile\<close> stores carries as expiry the clock reading taken at
  the upload plus exactly 24 hours (86400000 ms, 86400000000 microseconds in the column),
  and so does the entry added to the local list; on every other path \<open>addFile\<close> stores no
  row. The cleanup function, on a table whose primary key \<open>id\<close> is unique, leaves exactly
  the rows whose expiry is not earlier than the current time, unchanged and in order, and
  removes from the storage objects exactly those of the bucket \<open>user-files\<close> that are named
  by the path of an expired row.
\<close>

theorem file_expiry_and_cleanup:
  "(usr = Some u \<and> upload = Data () \<and> inserted = Data (new_id, created) \<longrightarrow>
      (\<exists>row. db_files (snd (addFile usr file now_name random upload now_expiry inserted removed (st, db)))
               = db_files db @ [row]
             \<and> f_id row = new_id \<and> f_name row = file_name file
             \<and> f_expires_at row = us_of_ms now_expiry + 24 * 60 * 60 * 1000 * 1000)
    \<and> (\<exists>newFile. files (fst (addFile usr file now_name random upload now_expiry inserted removed (st, db)))
               = newFile # files st
             \<and> sf_id newFile = new_id
             \<and> sf_expiresAt newFile = now_expiry + 24 * 60 * 60 * 1000))
   \<and> (usr = None \<or> upload \<noteq> Data () \<or> (\<forall>p. inserted \<noteq> Data p) \<longrightarrow>
        db_files (snd (addFile usr file now_name random upload now_expiry inserted removed (st, db)))
          = db_files db)
   \<and> (distinct (map f_id (db_files db)) \<longrightarrow>
        db_files (cleanup_expired_files now db) = filter (\<lambda>f. \<not> f_expires_at f < now) (db_files db))
   \<and> db_objects (cleanup_expired_files now db) =
        filter (\<lambda>obj. \<not> (o_bucket_id obj = str ''user-files'' \<and>
                  o_name obj \<in> f_file_path ` {f \<in> set (db_files db). f_expires_at f < now}))
               (db_objects db)"
proof -
  have stored: "usr = Some u \<and> upload = Data () \<and> inserted = Data (new_id, created) \<longrightarrow>
      (\<exists>row. db_files (snd (addFile usr file now_name random upload now_expiry inserted removed (st, db)))
               = db_files db @ [row]
             \<and> f_id row = new_id \<and> f_name row = file_name file
             \<and> f_expires_at row = us_of_ms now_expiry + 24 * 60 * 60 * 1000 * 1000)
    \<and> (\<exists>newFile. files (fst (addFile usr file now_name random upload now_expiry inserted removed (st, db)))
               = newFile # files st
             \<and> sf_id newFile = new_id
             \<and> sf_expiresAt newFile = now_expiry + 24 * 60 * 60 * 1000)"
    by (simp add: addFile_stored)
  have other: "usr = None \<or> upload \<noteq> Data () \<or> (\<forall>p. inserted \<noteq> Data p) \<longrightarrow>
        db_files (snd (addFile usr file now_name random upload now_expiry inserted removed (st, db)))
          = db_files db"
    using addFile_not_stored by blast
  have rows: "distinct (map f_id (db_files db)) \<longrightarrow>
        db_files (cleanup_expired_files now db) = filter (\<lambda>f. \<not> f_expires_at f < now) (db_files db)"
    using cleanup_expired_files_files by blast
  from stored other rows cleanup_expired_files_objects [of now db] show ?thesis
    by blast
qed

theorem file_expiry_and_cleanup_witness:
  "db_files (snd (addFile (Some ex_user) ex_file 1700000000000 (str ''k3j9'') (Data ()) 1700000000500
       (Data (str ''f3'', 1700000000600000)) (Data ()) (ex_files_state, ex_database)))
     = db_files ex_database @
         [\<lparr>f_id = str ''f3'', f_user_id = str ''u1'', f_name = str ''scan.v2.pdf'',
           f_type = str ''application/pdf'', f_size = 2048,
           f_file_path = str ''u1/1700000000000-k3j9.pdf'',
           f_expires_at = 1700086400500000, f_created_at = 1700000000600000\<rparr>]
   \<and> map sf_expiresAt (files (fst (addFile (Some ex_user) ex_file 1700000000000 (str ''k3j9'') (Data ())
       1700000000500 (Data (str ''f3'', 1700000000600000)) (Data ()) (ex_files_state, ex_database))))
     = [1700086400500]
   \<and> db_files (snd (addFile (Some ex_user) ex_file 1700000000000 (str ''k3j9'') (Data ()) 1700000000500
       Error (Data ()) (ex_files_state, ex_database))) = db_files ex_database
   \<and> distinct (map f_id (db_files ex_database))
   \<and> map f_id (db_files (cleanup_expired_files 2000 ex_database)) = [str ''f2'']
   \<and> db_objects (cleanup_expired_files 2000 ex_database) =
        [\<lparr>o_bucket_id = str ''user-files'', o_name = str ''u1/2-y.txt''\<rparr>,
         \<lparr>o_bucket_id = str ''avatars'', o_name = str ''u1/1-x.txt''\<rparr>]"
  using file_expiry_and_cleanup [of "Some ex_user" ex_user "Data ()" "Data (str ''f3'', 1700000000600000)"
      "str ''f3''" 1700000000600000 ex_file 1700000000000 "str ''k3j9''" 1700000000500 "Data ()"
      ex_files_state ex_database 2000]
    file_expiry_and_cleanup [of "Some ex_user" ex_user "Data ()" Error
      "str ''f3''" 1700000000600000 ex_file 1700000000000 "str ''k3j9''" 1700000000500 "Data ()"
      ex_files_state ex_database 2000]
  by (simp add: addFile_def Let_def ex_user_def ex_file_def ex_database_def ex_files_state_def
      cleanup_expired_files_def select_expired_files_def cleanup_expired_file_def
      numberToString_def digits.simps split_pop_def str_def us_of_ms_def ms_of_us_def
      FILE_EXPIRATION_TIME_def)

subsection \<open>Optimistic task updates\<close>

lemma addTask_optimistic:
  "trim txt \<noteq> [] \<Longrightarrow>
   optimistic (\<lparr>t_id = str ''temp-'' @ numberToString now_id, t_text = txt, t_completed = False,
                t_createdAt = now_created\<rparr> # tasks)
     (snd (addTask (Some u) txt now_id now_created savedTask tasks))"
  by (simp add: addTask_def optimistic_def Let_def)

lemma toggleTask_optimistic:
  "find (\<lambda>t. t_id t = ident) tasks = Some currentTask \<Longrightarrow>
   optimistic (map (\<lambda>task. if t_id task = ident
                            then task\<lparr>t_completed := \<not> t_completed currentTask\<rparr> else task) tasks)
     (snd (toggleTask (Some u) ident now result tasks))"
  by (cases result) (simp_all add: toggleTask_def optimistic_def Let_def)

lemma deleteTask_remote_first:
  "filter (\<lambda>e. case e of SetIsLoading _ \<Rightarrow> False | _ \<Rightarrow> True)
       (snd (deleteTask (Some u) ident result tasks)) =
     RemoteCall (DeleteProject ident) #
       (if result = Data () then [SetTasks (filter (\<lambda>t. t_id t \<noteq> ident) tasks)] else [])"
  by (cases result) (simp_all add: deleteTask_def)

lemma deleteTask_result:
  "fst (deleteTask (Some u) ident result tasks) =
     (if result = Data () then filter (\<lambda>t. t_id t \<noteq> ident) tasks else tasks)"
  by (cases result) (simp_all add: deleteTask_def)

text \<open>
  C5 (as amended). \<open>addTask\<close> and \<open>toggleTask\<close> update the local task list to reflect the
  mutation immediately, before the remote store operation: the first thing either does is
  to set the list (the temporary task put in front, the task's flag negated), and the remote
  call comes next. \<open>deleteTask\<close> calls the remote store first and removes the task from
  the local list only after the remote delete has succeeded; otherwise the list stays as it
  was.
\<close>

theorem task_updates_order:
  "(usr = Some u \<and> trim txt \<noteq> [] \<longrightarrow>
      optimistic (\<lparr>t_id = str ''temp-'' @ numberToString now_id, t_text = txt, t_completed = False,
                   t_createdAt = now_created\<rparr> # tasks)
        (snd (addTask usr txt now_id now_created savedTask tasks)))
   \<and> (usr = Some u \<and> find (\<lambda>t. t_id t = ident) tasks = Some currentTask \<longrightarrow>
      optimistic (map (\<lambda>task. if t_id task = ident
                               then task\<lparr>t_completed := \<not> t_completed currentTask\<rparr> else task) tasks)
        (snd (toggleTask usr ident now result tasks)))
   \<and> (usr = Some u \<longrightarrow>
      filter (\<lambda>e. case e of SetIsLoading _ \<Rightarrow> False | _ \<Rightarrow> True)
          (snd (deleteTask usr ident result tasks)) =
        RemoteCall (DeleteProject ident) #
          (if result = Data () then [SetTasks (filter (\<lambda>t. t_id t \<noteq> ident) tasks)] else [])
      \<and> fst (deleteTask usr ident result tasks) =
          (if result = Data () then filter (\<lambda>t. t_id t \<noteq> ident) tasks else tasks))"
  using addTask_optimistic toggleTask_optimistic deleteTask_remote_first deleteTask_result
  by blast

theorem task_updates_order_witness:
  "trim (str ''buy milk'') \<noteq> []
   \<and> optimistic
        [\<lparr>t_id = str ''temp-1700000000000'', t_text = str ''buy milk'', t_completed = False,
          t_createdAt = 1700000000001\<rparr>, ex_task]
        (snd (addTask (Some ex_user) (str ''buy milk'') 1700000000000 1700000000001 None [ex_task]))
   \<and> find (\<lambda>t. t_id t = str ''t1'') [ex_task] = Some ex_task
   \<and> optimistic [ex_task\<lparr>t_completed := True\<rparr>]
        (snd (toggleTask (Some ex_user) (str ''t1'') 9 Error [ex_task]))
   \<and> snd (deleteTask (Some ex_user) (str ''t1'') (Data ()) [ex_task]) =
        [SetIsLoading True, RemoteCall (DeleteProject (str ''t1'')), SetTasks [], SetIsLoading False]
   \<and> fst (deleteTask (Some ex_user) (str ''t1'') Error [ex_task]) = [ex_task]"
  using task_updates_order [of "Some ex_user" ex_user "str ''buy milk''" 1700000000000 1700000000001
      "[ex_task]" None "str ''t1''" ex_task 9 Error]
    task_updates_order [of "Some ex_user" ex_user "str ''buy milk''" 1700000000000 1700000000001
      "[ex_task]" None "str ''t1''" ex_task 9 "Data ()"]
  by (simp add: deleteTask_def ex_task_def trim_def isWhiteSpace_def str_def numberToString_def
      digits.simps)

text \<open>
  The claim as stated fails for \<open>deleteTask\<close>: even when the remote delete succeeds, the
  local list is not set before the remote call, and after a remote error it is never set.
\<close>

theorem deleteTask_optimistic_counterexample:
  "\<not> optimistic [] (snd (deleteTask (Some ex_user) (str ''t1'') (Data ()) [ex_task]))
   \<and> t_id ex_task = str ''t1''
   \<and> fst (deleteTask (Some ex_user) (str ''t1'') Error [ex_task]) = [ex_task]"
  by (simp add: deleteTask_def optimistic_def ex_task_def)

subsection \<open>The two-model fallback\<close>

lemma PRIMARY_not_BACKUP: "PRIMARY_MODEL \<noteq> BACKUP_MODEL"
  by (simp add: PRIMARY_MODEL_def BACKUP_MODEL_def str_def)

lemma generate_backup_only:
  assumes "api (build_request params PRIMARY_MODEL) = CallFailed"
  shows "generateResponseStream api params =
     (case api (build_request params BACKUP_MODEL) of
        CallFailed \<Rightarrow> ([apology], Normal)
      | Stream chunks Completed \<Rightarrow> (chunks, Return ())
      | Stream chunks Failed \<Rightarrow> (chunks @ [apology], Normal))"
proof (cases "api (build_request params BACKUP_MODEL)")
  case CallFailed
  with assms show ?thesis
    by (simp add: generateResponseStream_def try_catch_def try_generate_def catch_generate_def
        PRIMARY_not_BACKUP)
next
  case (Stream chunks e)
  with assms show ?thesis
    by (cases e)
       (simp_all add: generateResponseStream_def try_catch_def try_generate_def catch_generate_def
        PRIMARY_not_BACKUP)
qed

lemma try_catch_generate_not_Throw:
  "snd (try_catch (try_generate api params model) (catch_generate model)) \<noteq> Throw"
proof (cases "api (build_request params model)")
  case CallFailed
  then show ?thesis
    by (simp add: try_catch_def try_generate_def catch_generate_def)
next
  case (Stream chunks e)
  then show ?thesis
    by (cases e) (simp_all add: try_catch_def try_generate_def catch_generate_def)
qed

lemma generate_for_models_not_Throw:
  "snd (generate_for_models api params models) \<noteq> Throw"
proof (induction models)
  case Nil
  then show ?case by simp
next
  case (Cons model models)
  obtain ys c where tc: "try_catch (try_generate api params model) (catch_generate model) = (ys, c)"
    by (cases "try_catch (try_generate api params model) (catch_generate model)")
  with try_catch_generate_not_Throw [of api params model] have c: "c \<noteq> Throw" by simp
  obtain zs d where rest: "generate_for_models api params models = (zs, d)"
    by (cases "generate_for_models api params models")
  with Cons.IH have d: "d \<noteq> Throw" by simp
  from tc rest c d show ?case by (cases c) simp_all
qed

lemma generateResponseStream_not_Throw:
  "snd (generateResponseStream api params) \<noteq> Throw"
  unfolding generateResponseStream_def by (rule generate_for_models_not_Throw)

text \<open>
  A stream that breaks after some chunks is caught like a failed call, and what it yielded
  stays in the output: when both streams break, the output is their chunks followed by the
  apology.
\<close>

lemma generate_broken_streams:
  assumes "api (build_request params PRIMARY_MODEL) = Stream xs Failed"
    and "api (build_request params BACKUP_MODEL) = Stream ys Failed"
  shows "generateResponseStream api params = (xs @ ys @ [apology], Normal)"
  using assms
  by (simp add: generateResponseStream_def try_catch_def try_generate_def catch_generate_def
      PRIMARY_not_BACKUP)

text \<open>
  C2. In every run of \<open>generateResponseStream\<close> in which the call to the primary model
  fails, the backup model is tried next: the run is then what the backup model's answer
  makes it (its chunks and a return when its stream completes). If the calls to both models
  fail, the output stream consists of the static apology string alone, and the generator
  then ends normally.
\<close>

theorem generateResponseStream_fallback:
  "(api (build_request params PRIMARY_MODEL) = CallFailed \<longrightarrow>
      generateResponseStream api params =
        (case api (build_request params BACKUP_MODEL) of
           CallFailed \<Rightarrow> ([apology], Normal)
         | Stream chunks Completed \<Rightarrow> (chunks, Return ())
         | Stream chunks Failed \<Rightarrow> (chunks @ [apology], Normal)))
   \<and> (api (build_request params PRIMARY_MODEL) = CallFailed \<and>
      api (build_request params BACKUP_MODEL) = CallFailed \<longrightarrow>
      generateResponseStream api params =
        ([str ''I'' @ [0x27] @
          str ''m sorry, I encountered an error while processing your request. Please try again.''],
         Normal))"
  by (simp add: generate_backup_only apology_def)

theorem generateResponseStream_fallback_witness:
  "(\<lambda>r. CallFailed) (build_request ex_params PRIMARY_MODEL) = CallFailed
   \<and> (\<lambda>r. CallFailed) (build_request ex_params BACKUP_MODEL) = CallFailed
   \<and> generateResponseStream (\<lambda>r. CallFailed) ex_params = ([apology], Normal)
   \<and> ex_backup_api (build_request ex_params PRIMARY_MODEL) = CallFailed
   \<and> ex_backup_api (build_request ex_params BACKUP_MODEL) = Stream [str ''Mer'', str ''haba''] Completed
   \<and> generateResponseStream ex_backup_api ex_params = ([str ''Mer'', str ''haba''], Return ())"
  using generateResponseStream_fallback [of "\<lambda>r. CallFailed" ex_params]
    generateResponseStream_fallback [of ex_backup_api ex_params]
  by (simp add: ex_backup_api_def build_request_def PRIMARY_not_BACKUP
      PRIMARY_not_BACKUP [symmetric] apology_def)

subsection \<open>Title generation\<close>

lemma title_primary:
  "api PRIMARY_MODEL (title_contents s) = TitleResponse (Some t) \<Longrightarrow>
   generateTitle api s = Return (trim (replace_marks t))"
  by (simp add: generateTitle_def try_title_def)

lemma title_backup:
  "api PRIMARY_MODEL (title_contents s) = TitleCallFailed \<Longrightarrow>
   api BACKUP_MODEL (title_contents s) = TitleResponse (Some t) \<Longrightarrow>
   generateTitle api s = Return (trim (replace_marks t))"
  by (simp add: generateTitle_def try_title_def catch_title_def PRIMARY_not_BACKUP)

lemma title_both_fail:
  "api PRIMARY_MODEL (title_contents s) = TitleCallFailed \<Longrightarrow>
   api BACKUP_MODEL (title_contents s) = TitleCallFailed \<Longrightarrow>
   generateTitle api s = Return (str ''New Conversation'')"
  by (simp add: generateTitle_def try_title_def catch_title_def PRIMARY_not_BACKUP)

lemma try_title_cases:
  "try_title api s model = Throw \<or> (\<exists>t. try_title api s model = Return t)"
  by (simp add: try_title_def split: title_response.splits option.splits)

lemma generateTitle_returns: "\<exists>t. generateTitle api s = Return t"
proof -
  have backup: "\<exists>t. (case try_title api s BACKUP_MODEL of Throw \<Rightarrow> catch_title BACKUP_MODEL | c \<Rightarrow> c) = Return t"
    using try_title_cases [of api s BACKUP_MODEL] by (auto simp add: catch_title_def)
  have primary: "(case try_title api s PRIMARY_MODEL of Throw \<Rightarrow> catch_title PRIMARY_MODEL | c \<Rightarrow> c) = Normal
      \<or> (\<exists>t. (case try_title api s PRIMARY_MODEL of Throw \<Rightarrow> catch_title PRIMARY_MODEL | c \<Rightarrow> c) = Return t)"
    using try_title_cases [of api s PRIMARY_MODEL] by (auto simp add: catch_title_def PRIMARY_not_BACKUP)
  from primary backup show ?thesis
    by (auto simp add: generateTitle_def)
qed

lemma replace_marks_set: "set (replace_marks t) = set t - {0x22, 0x2A, 0x23}"
  by (auto simp add: replace_marks_def)

lemma trim_decompose:
  "s = takeWhile isWhiteSpace s @ trim s @ rev (takeWhile isWhiteSpace (rev (dropWhile isWhiteSpace s)))"
proof -
  let ?d = "dropWhile isWhiteSpace s"
  have "?d = rev (rev ?d)"
    by (simp only: rev_rev_ident)
  also have "\<dots> = rev (takeWhile isWhiteSpace (rev ?d) @ dropWhile isWhiteSpace (rev ?d))"
    by (simp only: takeWhile_dropWhile_id)
  also have "\<dots> = rev (dropWhile isWhiteSpace (rev ?d)) @ rev (takeWhile isWhiteSpace (rev ?d))"
    by (simp only: rev_append)
  finally have "?d = trim s @ rev (takeWhile isWhiteSpace (rev ?d))"
    by (simp only: trim_def)
  moreover have "s = takeWhile isWhiteSpace s @ ?d"
    by (simp only: takeWhile_dropWhile_id)
  ultimately show ?thesis by metis
qed

lemma trim_set: "set (trim s) \<subseteq> set s"
  by (metis trim_def set_rev set_dropWhileD subsetI)

lemma trim_last: "trim s \<noteq> [] \<Longrightarrow> \<not> isWhiteSpace (last (trim s))"
proof -
  assume ne: "trim s \<noteq> []"
  let ?r = "dropWhile isWhiteSpace (rev (dropWhile isWhiteSpace s))"
  from ne have "?r \<noteq> []" by (simp add: trim_def)
  then have "\<not> isWhiteSpace (hd ?r)" by (rule hd_dropWhile)
  moreover from \<open>?r \<noteq> []\<close> have "last (trim s) = hd ?r" by (simp add: trim_def last_rev)
  ultimately show ?thesis by simp
qed

lemma trim_hd: "trim s \<noteq> [] \<Longrightarrow> \<not> isWhiteSpace (hd (trim s))"
proof -
  assume ne: "trim s \<noteq> []"
  let ?d = "dropWhile isWhiteSpace s"
  let ?r = "dropWhile isWhiteSpace (rev ?d)"
  from ne have r: "?r \<noteq> []" by (simp add: trim_def)
  then have "rev ?d \<noteq> []" by (metis dropWhile.simps(1))
  then have d: "?d \<noteq> []" by simp
  have "rev ?d = takeWhile isWhiteSpace (rev ?d) @ ?r" by simp
  with r have "last (rev ?d) = last ?r" by (metis last_appendR)
  with d have "hd ?d = last ?r" by (simp add: last_rev)
  moreover from d have "\<not> isWhiteSpace (hd ?d)" by (rule hd_dropWhile)
  moreover from r have "hd (trim s) = last ?r" by (simp add: trim_def hd_rev)
  ultimately show ?thesis by simp
qed

text \<open>
  C10. For every input \<open>generateTitle\<close> returns a string and raises nothing. It returns
  the static string \<open>New Conversation\<close> when the calls to both models fail. When the call to
  the primary model succeeds with a text, or it fails and the call to the backup model
  succeeds with a text, it returns that text with every double quote, asterisk and hash
  removed and the surrounding white space trimmed: the result contains none of the three
  characters, it is the text without them less a prefix and a suffix of white space, and it
  neither begins nor ends with white space.
\<close>

theorem generateTitle_result:
  "(\<exists>r. generateTitle api s = Return r)
   \<and> (api PRIMARY_MODEL (title_contents s) = TitleCallFailed \<and>
      api BACKUP_MODEL (title_contents s) = TitleCallFailed \<longrightarrow>
        generateTitle api s = Return (str ''New Conversation''))
   \<and> (api PRIMARY_MODEL (title_contents s) = TitleResponse (Some t) \<or>
      api PRIMARY_MODEL (title_contents s) = TitleCallFailed \<and>
      api BACKUP_MODEL (title_contents s) = TitleResponse (Some t) \<longrightarrow>
        generateTitle api s = Return (trim (replace_marks t)))
   \<and> set (trim (replace_marks t)) \<inter> {0x22, 0x2A, 0x23} = {}
   \<and> replace_marks t = filter (\<lambda>c. c \<noteq> 0x22 \<and> c \<noteq> 0x2A \<and> c \<noteq> 0x23) t
   \<and> (\<exists>before after. replace_marks t = before @ trim (replace_marks t) @ after
         \<and> list_all isWhiteSpace before \<and> list_all isWhiteSpace after)
   \<and> (trim (replace_marks t) \<noteq> [] \<longrightarrow>
        \<not> isWhiteSpace (hd (trim (replace_marks t))) \<and> \<not> isWhiteSpace (last (trim (replace_marks t))))"
proof -
  have returns: "\<exists>r. generateTitle api s = Return r"
    by (rule generateTitle_returns)
  have static: "api PRIMARY_MODEL (title_contents s) = TitleCallFailed \<and>
      api BACKUP_MODEL (title_contents s) = TitleCallFailed \<longrightarrow>
        generateTitle api s = Return (str ''New Conversation'')"
    by (simp add: title_both_fail)
  have cleaned: "api PRIMARY_MODEL (title_contents s) = TitleResponse (Some t) \<or>
      api PRIMARY_MODEL (title_contents s) = TitleCallFailed \<and>
      api BACKUP_MODEL (title_contents s) = TitleResponse (Some t) \<longrightarrow>
        generateTitle api s = Return (trim (replace_marks t))"
    using title_primary title_backup by blast
  have marks: "set (trim (replace_marks t)) \<inter> {0x22, 0x2A, 0x23} = {}"
    using trim_set [of "replace_marks t"] replace_marks_set [of t] by blast
  have filtered: "replace_marks t = filter (\<lambda>c. c \<noteq> 0x22 \<and> c \<noteq> 0x2A \<and> c \<noteq> 0x23) t"
    by (simp add: replace_marks_def)
  have "replace_marks t = takeWhile isWhiteSpace (replace_marks t) @ trim (replace_marks t) @
      rev (takeWhile isWhiteSpace (rev (dropWhile isWhiteSpace (replace_marks t))))"
    by (rule trim_decompose)
  moreover have "list_all isWhiteSpace (takeWhile isWhiteSpace (replace_marks t))"
    by (simp add: list_all_iff) (meson set_takeWhileD)
  moreover have "list_all isWhiteSpace
      (rev (takeWhile isWhiteSpace (rev (dropWhile isWhiteSpace (replace_marks t)))))"
    by (simp add: list_all_iff) (meson set_takeWhileD)
  ultimately have around: "\<exists>before after. replace_marks t = before @ trim (replace_marks t) @ after
         \<and> list_all isWhiteSpace before \<and> list_all isWhiteSpace after"
    by blast
  have ends: "trim (replace_marks t) \<noteq> [] \<longrightarrow>
        \<not> isWhiteSpace (hd (trim (replace_marks t))) \<and> \<not> isWhiteSpace (last (trim (replace_marks t)))"
    using trim_hd trim_last by blast
  from returns static cleaned marks filtered around ends show ?thesis
    by blast
qed

theorem generateTitle_result_witness:
  "(\<lambda>model contents. TitleCallFailed) PRIMARY_MODEL (title_contents (str ''hi'')) = TitleCallFailed
   \<and> (\<lambda>model contents. TitleCallFailed) BACKUP_MODEL (title_contents (str ''hi'')) = TitleCallFailed
   \<and> generateTitle (\<lambda>model contents. TitleCallFailed) (str ''hi'') = Return (str ''New Conversation'')
   \<and> (\<lambda>model contents. TitleResponse (Some (str '' **Clinic #1** ''))) PRIMARY_MODEL
         (title_contents (str ''hi'')) = TitleResponse (Some (str '' **Clinic #1** ''))
   \<and> generateTitle (\<lambda>model contents. TitleResponse (Some (str '' **Clinic #1** ''))) (str ''hi'')
       = Return (str ''Clinic 1'')
   \<and> trim (replace_marks (str '' **Clinic #1** '')) \<noteq> []
   \<and> \<not> isWhiteSpace (hd (trim (replace_marks (str '' **Clinic #1** ''))))"
  using generateTitle_result [of "\<lambda>model contents. TitleCallFailed" "str ''hi''" "str '' **Clinic #1** ''"]
    generateTitle_result [of "\<lambda>model contents. TitleResponse (Some (str '' **Clinic #1** ''))"
      "str ''hi''" "str '' **Clinic #1** ''"]
  by (simp add: trim_def replace_marks_def isWhiteSpace_def str_def)

subsection \<open>Message identifiers\<close>

lemma digit_not_i: "k < 10 \<Longrightarrow> (48 + of_nat k :: 16 word) \<noteq> 0x69"
proof -
  assume "k < 10"
  then have "k \<in> {0, 1, 2, 3, 4, 5, 6, 7, 8, 9}" by auto
  then show ?thesis by auto
qed

lemma digits_last: "digits n \<noteq> [] \<and> last (digits n) = 48 + of_nat (n mod 10)"
  by (subst digits.simps, subst (2) digits.simps) simp

lemma numberToString_last: "numberToString n \<noteq> [] \<and> last (numberToString n) \<noteq> 0x69"
proof -
  have "\<And>k. digits k \<noteq> [] \<and> last (digits k) \<noteq> 0x69"
    using digits_last digit_not_i by (metis mod_less_divisor zero_less_numeral)
  then show ?thesis by (simp add: numberToString_def)
qed

lemma userMessage_id_not_ai: "m_id (userMessage_of env txt img) \<noteq> aiMessageId_of env'"
proof
  assume "m_id (userMessage_of env txt img) = aiMessageId_of env'"
  then have "numberToString (now_user_id env) = numberToString (now_ai_id env') @ str ''-ai''"
    by (simp add: userMessage_of_def aiMessageId_of_def)
  then have "last (numberToString (now_user_id env)) = 0x69"
    by (simp add: str_def)
  with numberToString_last show False by blast
qed

subsection \<open>The chunk update\<close>

lemma updateConversation_conversations:
  "conversations (updateConversation usr ident f st) =
     map (\<lambda>conv. if c_id conv = ident then f conv else conv) (conversations st)"
  by (simp add: updateConversation_def)

lemma updateConversation_frame:
  "activeConversationId (updateConversation usr ident f st) = activeConversationId st
   \<and> isLoading (updateConversation usr ident f st) = isLoading st"
  by (simp add: updateConversation_def)

lemma setPlaceholderText_fields:
  "c_id (setPlaceholderText aid full conv) = c_id conv
   \<and> c_title (setPlaceholderText aid full conv) = c_title conv
   \<and> c_createdAt (setPlaceholderText aid full conv) = c_createdAt conv
   \<and> length (c_messages (setPlaceholderText aid full conv)) = length (c_messages conv)"
  by (simp add: setPlaceholderText_def)

lemma setPlaceholderText_nth:
  "i < length (c_messages conv) \<Longrightarrow>
   c_messages (setPlaceholderText aid full conv) ! i =
     (if m_id (c_messages conv ! i) = aid then (c_messages conv ! i)\<lparr>m_text := full\<rparr>
      else c_messages conv ! i)"
  by (simp add: setPlaceholderText_def)

lemma setPlaceholderText_twice:
  "setPlaceholderText aid y (setPlaceholderText aid x conv) = setPlaceholderText aid y conv"
  by (simp add: setPlaceholderText_def comp_def)

subsection \<open>Sending a message\<close>

lemma streamChunks_fullResponse:
  "fst (streamChunks u cid aid chunks (full, st)) = full @ concat chunks"
  by (induction chunks arbitrary: full st) simp_all

lemma streamChunks_conversations:
  "conversations (snd (streamChunks u cid aid chunks (full, st))) =
     (if chunks = [] then conversations st
      else map (\<lambda>conv. if c_id conv = cid then setPlaceholderText aid (full @ concat chunks) conv
                        else conv) (conversations st))"
proof (induction chunks arbitrary: full st)
  case Nil
  then show ?case by simp
next
  case (Cons chunk chunks)
  let ?st = "updateConversation (Some u) cid (setPlaceholderText aid (full @ chunk)) st"
  have "conversations (snd (streamChunks u cid aid (chunk # chunks) (full, st))) =
      conversations (snd (streamChunks u cid aid chunks (full @ chunk, ?st)))"
    by simp
  also have "\<dots> = (if chunks = [] then conversations ?st
      else map (\<lambda>conv. if c_id conv = cid
                        then setPlaceholderText aid ((full @ chunk) @ concat chunks) conv
                        else conv) (conversations ?st))"
    by (rule Cons.IH)
  also have "\<dots> = map (\<lambda>conv. if c_id conv = cid
                        then setPlaceholderText aid (full @ concat (chunk # chunks)) conv
                        else conv) (conversations st)"
    by (simp add: updateConversation_conversations comp_def setPlaceholderText_fields
        setPlaceholderText_twice if_distrib [of "\<lambda>c. c_id c = cid"] cong: if_cong)
  finally show ?case by simp
qed

lemma streamChunks_frame:
  "activeConversationId (snd (streamChunks u cid aid chunks (full, st))) = activeConversationId st
   \<and> isLoading (snd (streamChunks u cid aid chunks (full, st))) = isLoading st"
  by (induction chunks arbitrary: full st) (simp_all add: updateConversation_frame)

lemma setPlaceholderText_appended:
  assumes "aid \<notin> m_id ` set prev" and "m_id um \<noteq> aid" and "m_id ph = aid"
  shows "c_messages (setPlaceholderText aid full (conv\<lparr>c_messages := prev @ [um, ph]\<rparr>)) =
           prev @ [um, ph\<lparr>m_text := full\<rparr>]"
proof -
  from assms(1) have "map (\<lambda>m. if m_id m = aid then m\<lparr>m_text := full\<rparr> else m) prev = prev"
    by (induction prev) auto
  with assms(2,3) show ?thesis by (simp add: setPlaceholderText_def)
qed

lemma addUserMessage_existing:
  assumes "activeConversationId st = Some cid" and "cid \<noteq> []"
  shows "addUserMessage env u um st =
     (cid, False, updateConversation (Some u) cid (\<lambda>conv. conv\<lparr>c_messages := c_messages conv @ [um]\<rparr>) st)"
  using assms by (simp add: addUserMessage_def)

lemma addUserMessage_new:
  assumes "activeConversationId st = None"
  shows "addUserMessage env u um st =
     (randomUUID env, True,
      st\<lparr>conversations := \<lparr>c_id = randomUUID env, c_title = str ''New Conversation'',
                             c_messages = [um], c_createdAt = now_createdAt env\<rparr> # conversations st,
         activeConversationId := Some (randomUUID env),
         saved := saved st @ [\<lparr>c_id = randomUUID env, c_title = str ''New Conversation'',
                             c_messages = [um], c_createdAt = now_createdAt env\<rparr>]\<rparr>)"
  using assms by (simp add: addUserMessage_def Let_def)

lemma streamResponse_not_Throw:
  "fst (streamResponse env u txt file um active cid aid st) \<noteq> Throw"
  by (simp add: streamResponse_def Let_def generateResponseStream_not_Throw)

lemma streamResponse_conversations:
  "conversations (snd (snd (streamResponse env u txt file um active cid aid st))) =
     (if fst (generateResponseStream (generate_api env)
               (stream_params env u txt file um active cid aid)) = []
      then conversations st
      else map (\<lambda>conv. if c_id conv = cid
                 then setPlaceholderText aid
                        (concat (fst (generateResponseStream (generate_api env)
                                        (stream_params env u txt file um active cid aid)))) conv
                 else conv) (conversations st))"
  by (simp add: streamResponse_def Let_def streamChunks_conversations)

lemma streamResponse_fullResponse:
  "fst (snd (streamResponse env u txt file um active cid aid st)) =
     concat (fst (generateResponseStream (generate_api env)
                    (stream_params env u txt file um active cid aid)))"
  by (simp add: streamResponse_def Let_def streamChunks_fullResponse)

lemma generateTitle_not_Throw: "generateTitle api s \<noteq> Throw"
  using generateTitle_returns [of api s] by auto

lemma try_send_not_Throw:
  "fst (try_send env u txt file um active cid needsTitle aid st) \<noteq> Throw"
proof -
  obtain c full st1 where sr: "streamResponse env u txt file um active cid aid st = (c, full, st1)"
    by (cases "streamResponse env u txt file um active cid aid st")
  with streamResponse_not_Throw [of env u "txt" "file" um active cid aid st] have c: "c \<noteq> Throw"
    by simp
  obtain t where t: "generateTitle (title_api env) (txt @ [0x0A, 0x0A] @ full) = Return t"
    using generateTitle_returns by blast
  from sr c t show ?thesis
    by (cases c) (simp_all add: try_send_def)
qed

lemma try_send_untitled:
  assumes "refresh_select env = Error \<or> refresh_select env = Threw"
  shows "snd (try_send env u txt file um active cid False aid st) =
           snd (snd (streamResponse env u txt file um active cid aid st))"
proof -
  obtain c full st1 where sr: "streamResponse env u txt file um active cid aid st = (c, full, st1)"
    by (cases "streamResponse env u txt file um active cid aid st")
  have "refreshConversationFromDB env cid st1 = st1"
    using assms by (auto simp add: refreshConversationFromDB_def)
  with sr show ?thesis
    by (cases c) (simp_all add: try_send_def)
qed

lemma sendMessage_existing:
  assumes "activeConversationId st = Some cid" and "cid \<noteq> []"
    and "file = None \<or> fileToBase64 env \<noteq> None"
    and "refresh_select env = Error \<or> refresh_select env = Threw"
  shows "sendMessage env (Some u) txt file st =
     ((snd (snd (streamResponse env u txt file
          (userMessage_of env txt (case file of None \<Rightarrow> None | Some f \<Rightarrow> fileToBase64 env))
          (activeConversationId st) cid (aiMessageId_of env)
          (addPlaceholder env u cid
             (snd (snd (addUserMessage env u
                (userMessage_of env txt (case file of None \<Rightarrow> None | Some f \<Rightarrow> fileToBase64 env))
                (st\<lparr>isLoading := True\<rparr>))))))))\<lparr>isLoading := False\<rparr>,
      Fulfilled)"
proof -
  let ?img = "case file of None \<Rightarrow> None | Some f \<Rightarrow> fileToBase64 env"
  let ?um = "userMessage_of env txt ?img"
  have img: "(case file of None \<Rightarrow> Some None
       | Some f \<Rightarrow> (case fileToBase64 env of None \<Rightarrow> None | Some b \<Rightarrow> Some (Some b))) = Some ?img"
    using assms(3) by (cases "file"; cases "fileToBase64 env") simp_all
  have added: "addUserMessage env u ?um (st\<lparr>isLoading := True\<rparr>) =
      (cid, False, updateConversation (Some u) cid
         (\<lambda>conv. conv\<lparr>c_messages := c_messages conv @ [?um]\<rparr>) (st\<lparr>isLoading := True\<rparr>))"
    by (rule addUserMessage_existing) (simp_all add: assms)
  have nt: "\<And>s. fst (try_send env u txt file ?um (activeConversationId st) cid False (aiMessageId_of env) s)
      \<noteq> Throw"
    by (rule try_send_not_Throw)
  show ?thesis
    unfolding sendMessage_def
    apply (simp only: option.case img Let_def added fst_conv snd_conv)
    apply (cases "fst (try_send env u txt file ?um (activeConversationId st) cid False (aiMessageId_of env)
        (addPlaceholder env u cid (updateConversation (Some u) cid
           (\<lambda>conv. conv\<lparr>c_messages := c_messages conv @ [?um]\<rparr>) (st\<lparr>isLoading := True\<rparr>))))")
    using nt apply (simp_all add: try_send_untitled [OF assms(4)])
    done
qed

lemma appended_nth:
  assumes "i < length (conversations st)" and "c_id (conversations st ! i) = cid"
  shows "conversations (addPlaceholder env u cid
            (updateConversation (Some u) cid (\<lambda>conv. conv\<lparr>c_messages := c_messages conv @ [um]\<rparr>) st)) ! i
         = (conversations st ! i)\<lparr>c_messages := c_messages (conversations st ! i) @ [um, aiMessagePlaceholder env]\<rparr>"
  using assms by (simp add: addPlaceholder_def updateConversation_conversations)

text \<open>
  C1 (as amended). For every call of \<open>sendMessage\<close>, by a signed-in user, with a prompt
  (and an attachment, if any, that could be read) on an existing active conversation none of
  whose messages carries the id made for the assistant placeholder: the operation first
  appends the user message to the conversation's message list, then appends an assistant
  placeholder with empty text, and when the stream has ended the message list is the
  previous list followed by the user message and one assistant message whose text is the
  concatenation, in order, of all chunks the response stream yielded. That is also the
  list when \<open>sendMessage\<close> has finished, unless the concluding refresh replaces the
  conversation by a row read from the database.
\<close>

theorem sendMessage_appends:
  assumes "usr = Some u"
    and "activeConversationId st = Some cid" and "cid \<noteq> []"
    and "file = None \<or> fileToBase64 env \<noteq> None"
    and "i < length (conversations st)" and "c_id (conversations st ! i) = cid"
    and "aiMessageId_of env \<notin> m_id ` set (c_messages (conversations st ! i))"
  shows
    "(let previous = c_messages (conversations st ! i);
          userMessage = userMessage_of env prompt (case file of None \<Rightarrow> None | Some f \<Rightarrow> fileToBase64 env);
          added = snd (snd (addUserMessage env u userMessage (st\<lparr>isLoading := True\<rparr>)));
          placed = addPlaceholder env u cid added;
          streamed = streamResponse env u prompt file userMessage (activeConversationId st) cid
                       (aiMessageId_of env) placed;
          chunks = fst (generateResponseStream (generate_api env)
                          (stream_params env u prompt file userMessage (activeConversationId st) cid
                             (aiMessageId_of env)));
          answered = previous @ [userMessage, (aiMessagePlaceholder env)\<lparr>m_text := concat chunks\<rparr>]
      in c_messages (conversations added ! i) = previous @ [userMessage]
       \<and> m_sender userMessage = USER \<and> m_text userMessage = prompt
       \<and> c_messages (conversations placed ! i) = previous @ [userMessage, aiMessagePlaceholder env]
       \<and> m_sender (aiMessagePlaceholder env) = AI \<and> m_text (aiMessagePlaceholder env) = []
       \<and> c_messages (conversations (snd (snd streamed)) ! i) = answered
       \<and> (refresh_select env = Error \<or> refresh_select env = Threw \<longrightarrow>
            sendMessage env usr prompt file st = ((snd (snd streamed))\<lparr>isLoading := False\<rparr>, Fulfilled)
            \<and> c_messages (conversations (fst (sendMessage env usr prompt file st)) ! i) = answered))"
proof -
  define previous where "previous = c_messages (conversations st ! i)"
  define um where "um = userMessage_of env prompt (case file of None \<Rightarrow> None | Some f \<Rightarrow> fileToBase64 env)"
  define st0 where "st0 = st\<lparr>isLoading := True\<rparr>"
  define added where "added = snd (snd (addUserMessage env u um st0))"
  define placed where "placed = addPlaceholder env u cid added"
  define streamed where "streamed = streamResponse env u prompt file um (activeConversationId st) cid
      (aiMessageId_of env) placed"
  define chunks where "chunks = fst (generateResponseStream (generate_api env)
      (stream_params env u prompt file um (activeConversationId st) cid (aiMessageId_of env)))"
  define ph where "ph = aiMessagePlaceholder env"
  have st0: "conversations st0 = conversations st" "activeConversationId st0 = Some cid"
    by (simp_all add: st0_def assms(2))
  have added_eq: "added = updateConversation (Some u) cid
      (\<lambda>conv. conv\<lparr>c_messages := c_messages conv @ [um]\<rparr>) st0"
    by (simp add: added_def addUserMessage_existing [OF st0(2) assms(3)])
  have a: "c_messages (conversations added ! i) = previous @ [um]"
    by (simp add: added_eq updateConversation_conversations st0 assms(5,6) previous_def)
  have i0: "i < length (conversations st0)" "c_id (conversations st0 ! i) = cid"
    by (simp_all add: st0 assms(5,6))
  have placed_i: "conversations placed ! i = (conversations st ! i)\<lparr>c_messages := previous @ [um, ph]\<rparr>"
    unfolding placed_def added_eq ph_def previous_def
    using appended_nth [OF i0, of env u um] by (simp add: st0)
  then have p: "c_messages (conversations placed ! i) = previous @ [um, ph]"
    by simp
  have ph: "m_id ph = aiMessageId_of env" "m_sender ph = AI" "m_text ph = []"
    by (simp_all add: ph_def aiMessagePlaceholder_def)
  have len: "i < length (conversations placed)"
    by (simp add: placed_def added_eq addPlaceholder_def updateConversation_conversations i0)
  have cid_placed: "c_id (conversations placed ! i) = cid"
    by (simp add: placed_i assms(6))
  have um_id: "m_id um \<noteq> aiMessageId_of env"
    unfolding um_def by (rule userMessage_id_not_ai)
  have fresh: "aiMessageId_of env \<notin> m_id ` set previous"
    using assms(7) by (simp add: previous_def)
  have s: "c_messages (conversations (snd (snd streamed)) ! i) =
      previous @ [um, ph\<lparr>m_text := concat chunks\<rparr>]"
  proof (cases "chunks = []")
    case True
    then have "conversations (snd (snd streamed)) = conversations placed"
      by (simp add: streamed_def streamResponse_conversations chunks_def)
    with p True ph(3) show ?thesis by simp
  next
    case False
    then have "conversations (snd (snd streamed)) ! i =
        setPlaceholderText (aiMessageId_of env) (concat chunks) (conversations placed ! i)"
      using len cid_placed
      by (simp add: streamed_def streamResponse_conversations chunks_def)
    then show ?thesis
      by (simp only: placed_i setPlaceholderText_appended [OF fresh um_id ph(1)])
  qed
  have um: "m_sender um = USER" "m_text um = prompt"
    by (simp_all add: um_def userMessage_of_def)
  have fin: "refresh_select env = Error \<or> refresh_select env = Threw \<longrightarrow>
      sendMessage env usr prompt file st = ((snd (snd streamed))\<lparr>isLoading := False\<rparr>, Fulfilled)"
    using sendMessage_existing [OF assms(2,3,4), of u "prompt"]
    by (simp add: assms(1) streamed_def placed_def added_def um_def st0_def)
  have fin_i: "c_messages (conversations ((snd (snd streamed))\<lparr>isLoading := False\<rparr>) ! i) =
      previous @ [um, ph\<lparr>m_text := concat chunks\<rparr>]"
    using s by simp
  from a um p ph s fin fin_i show ?thesis
    unfolding Let_def previous_def [symmetric] um_def [symmetric] st0_def [symmetric]
      added_def [symmetric] placed_def [symmetric] streamed_def [symmetric]
      chunks_def [symmetric] ph_def [symmetric]
    by simp
qed

lemmas ex_chat_defs = ex_env_def ex_env_same_clock_def ex_env_down_def ex_chat_state_def
  ex_conversation_def ex_user_message_def ex_ai_message_def ex_user_def ex_backup_api_def

lemmas send_defs = sendMessage_def try_send_def streamResponse_def stream_params_def
  conversationHistory_of_def addUserMessage_def addPlaceholder_def aiMessagePlaceholder_def
  aiMessageId_of_def userMessage_of_def updateConversation_def setPlaceholderText_def
  refreshConversationFromDB_def generateResponseStream_def try_catch_def try_generate_def
  catch_generate_def build_request_def generateTitle_def try_title_def catch_title_def
  PRIMARY_MODEL_def BACKUP_MODEL_def apology_def numberToString_def digits.simps
  trim_def isWhiteSpace_def str_def Let_def

theorem sendMessage_appends_witness:
  "activeConversationId ex_chat_state = Some (str ''c1'')
   \<and> str ''c1'' \<noteq> []
   \<and> (0::nat) < length (conversations ex_chat_state)
   \<and> c_id (conversations ex_chat_state ! 0) = str ''c1''
   \<and> aiMessageId_of ex_env \<notin> m_id ` set (c_messages (conversations ex_chat_state ! 0))
   \<and> refresh_select ex_env = Error
   \<and> c_messages (conversations (fst (sendMessage ex_env (Some ex_user) (str ''Merhaba'') None
          ex_chat_state)) ! 0) =
       [ex_user_message, ex_ai_message,
        \<lparr>m_id = str ''msg-1700000000000'', m_sender = USER, m_text = str ''Merhaba'',
         m_timestamp = 1700000000000, m_image = None\<rparr>,
        \<lparr>m_id = str ''msg-1700000000002-ai'', m_sender = AI, m_text = str ''Merhaba'',
         m_timestamp = 1700000000002, m_image = None\<rparr>]"
proof -
  have h2: "activeConversationId ex_chat_state = Some (str ''c1'')"
    by (simp add: ex_chat_state_def)
  have h3: "str ''c1'' \<noteq> []"
    by (simp add: str_def)
  have h4: "None = None \<or> fileToBase64 ex_env \<noteq> None"
    by simp
  have h5: "(0::nat) < length (conversations ex_chat_state)"
    by (simp add: ex_chat_state_def)
  have h6: "c_id (conversations ex_chat_state ! 0) = str ''c1''"
    by (simp add: ex_chat_state_def ex_conversation_def)
  have h7: "aiMessageId_of ex_env \<notin> m_id ` set (c_messages (conversations ex_chat_state ! 0))"
    by (simp add: ex_chat_defs aiMessageId_of_def numberToString_def digits.simps str_def)
  have h8: "refresh_select ex_env = Error"
    by (simp add: ex_env_def)
  have chunks: "fst (generateResponseStream (generate_api ex_env)
      (stream_params ex_env ex_user (str ''Merhaba'') None
         (userMessage_of ex_env (str ''Merhaba'') None) (activeConversationId ex_chat_state)
         (str ''c1'') (aiMessageId_of ex_env))) = [str ''Mer'', str ''haba'']"
    by (simp add: generateResponseStream_def try_catch_def try_generate_def catch_generate_def
        ex_env_def ex_backup_api_def build_request_def PRIMARY_not_BACKUP
        PRIMARY_not_BACKUP [symmetric])
  from sendMessage_appends [OF refl h2 h3 h4 h5 h6 h7, of "str ''Merhaba''"] h8 chunks
  have "c_messages (conversations (fst (sendMessage ex_env (Some ex_user) (str ''Merhaba'') None
          ex_chat_state)) ! 0) =
      c_messages (conversations ex_chat_state ! 0) @
        [userMessage_of ex_env (str ''Merhaba'') None,
         (aiMessagePlaceholder ex_env)\<lparr>m_text := concat [str ''Mer'', str ''haba'']\<rparr>]"
    by (simp add: Let_def)
  then have "c_messages (conversations (fst (sendMessage ex_env (Some ex_user) (str ''Merhaba'') None
          ex_chat_state)) ! 0) =
       [ex_user_message, ex_ai_message,
        \<lparr>m_id = str ''msg-1700000000000'', m_sender = USER, m_text = str ''Merhaba'',
         m_timestamp = 1700000000000, m_image = None\<rparr>,
        \<lparr>m_id = str ''msg-1700000000002-ai'', m_sender = AI, m_text = str ''Merhaba'',
         m_timestamp = 1700000000002, m_image = None\<rparr>]"
    by (simp add: ex_chat_state_def ex_conversation_def ex_env_def userMessage_of_def
        aiMessagePlaceholder_def aiMessageId_of_def numberToString_def digits.simps str_def)
  with h2 h3 h5 h6 h7 h8 show ?thesis by blast
qed

text \<open>
  The claim as stated fails when a message of the conversation already carries the id made
  for the placeholder (the clock reads, for the placeholder, the value it read for an earlier
  assistant message): the chunk update then rewrites that earlier message too, so the list is
  not the previous list followed by the two new messages. Here the earlier answer
  \<open>Hi Ada\<close> is overwritten by the new one.
\<close>

theorem sendMessage_appends_counterexample:
  "activeConversationId ex_chat_state = Some (str ''c1'')
   \<and> c_id (conversations ex_chat_state ! 0) = str ''c1''
   \<and> c_messages (conversations ex_chat_state ! 0) = [ex_user_message, ex_ai_message]
   \<and> fst (generateResponseStream (generate_api ex_env_same_clock)
        (stream_params ex_env_same_clock ex_user (str ''Merhaba'') None
           (userMessage_of ex_env_same_clock (str ''Merhaba'') None) (activeConversationId ex_chat_state)
           (str ''c1'') (aiMessageId_of ex_env_same_clock))) = [str ''Mer'', str ''haba'']
   \<and> c_messages (conversations (fst (sendMessage ex_env_same_clock (Some ex_user) (str ''Merhaba'') None
          ex_chat_state)) ! 0) =
       [ex_user_message, ex_ai_message\<lparr>m_text := str ''Merhaba''\<rparr>,
        userMessage_of ex_env_same_clock (str ''Merhaba'') None,
        (aiMessagePlaceholder ex_env_same_clock)\<lparr>m_text := str ''Merhaba''\<rparr>]
   \<and> c_messages (conversations (fst (sendMessage ex_env_same_clock (Some ex_user) (str ''Merhaba'') None
          ex_chat_state)) ! 0) \<noteq>
       c_messages (conversations ex_chat_state ! 0) @
       [userMessage_of ex_env_same_clock (str ''Merhaba'') None,
        (aiMessagePlaceholder ex_env_same_clock)\<lparr>m_text := str ''Merhaba''\<rparr>]"
  by (simp add: ex_chat_defs send_defs)

subsection \<open>The chunk updates of a send\<close>

lemma streamChunks_append:
  "streamChunks u cid aid (xs @ ys) (full, st) =
     streamChunks u cid aid ys (streamChunks u cid aid xs (full, st))"
  by (induction xs arbitrary: full st) simp_all

lemma streamChunks_step:
  assumes "n < length chunks"
  shows "snd (streamChunks u cid aid (take (Suc n) chunks) ([], st)) =
     updateConversation (Some u) cid (setPlaceholderText aid (concat (take (Suc n) chunks)))
       (snd (streamChunks u cid aid (take n chunks) ([], st)))"
proof -
  obtain full st1 where before: "streamChunks u cid aid (take n chunks) ([], st) = (full, st1)"
    by (cases "streamChunks u cid aid (take n chunks) ([], st)")
  have full: "full = concat (take n chunks)"
    using streamChunks_fullResponse [of u cid aid "take n chunks" "[]" st] before by simp
  have "streamChunks u cid aid (take (Suc n) chunks) ([], st) =
      streamChunks u cid aid [chunks ! n] (full, st1)"
    by (simp only: take_Suc_conv_app_nth [OF assms] streamChunks_append before)
  then show ?thesis
    by (simp add: before full take_Suc_conv_app_nth [OF assms])
qed

lemma setPlaceholderText_last:
  assumes "aid \<notin> m_id ` set finalized" and "m_id ph = aid"
    and "c_messages conv = finalized @ [ph]"
  shows "c_messages (setPlaceholderText aid full conv) = finalized @ [ph\<lparr>m_text := full\<rparr>]"
proof -
  from assms(1) have "map (\<lambda>m. if m_id m = aid then m\<lparr>m_text := full\<rparr> else m) finalized = finalized"
    by (induction finalized) auto
  with assms(2,3) show ?thesis by (simp add: setPlaceholderText_def)
qed

lemma streamed_messages:
  assumes "i < length (conversations placed)" and "c_id (conversations placed ! i) = cid"
    and "c_messages (conversations placed ! i) = finalized @ [ph]"
    and "aid \<notin> m_id ` set finalized" and "m_id ph = aid" and "m_text ph = []"
  shows "c_messages (conversations (snd (streamChunks u cid aid xs ([], placed))) ! i) =
           finalized @ [ph\<lparr>m_text := concat xs\<rparr>]"
proof (cases "xs = []")
  case True
  with assms(3,6) show ?thesis by simp
next
  case False
  then have "conversations (snd (streamChunks u cid aid xs ([], placed))) ! i =
      setPlaceholderText aid (concat xs) (conversations placed ! i)"
    using assms(1,2) by (simp add: streamChunks_conversations)
  then show ?thesis
    by (simp only: setPlaceholderText_last [OF assms(4,5,3)])
qed

lemma streamed_fields:
  assumes "i < length (conversations placed)"
  shows "c_id (conversations (snd (streamChunks u cid aid xs ([], placed))) ! i) = c_id (conversations placed ! i)
    \<and> c_title (conversations (snd (streamChunks u cid aid xs ([], placed))) ! i) = c_title (conversations placed ! i)
    \<and> c_createdAt (conversations (snd (streamChunks u cid aid xs ([], placed))) ! i) = c_createdAt (conversations placed ! i)
    \<and> length (conversations (snd (streamChunks u cid aid xs ([], placed)))) = length (conversations placed)"
  using assms by (simp add: streamChunks_conversations setPlaceholderText_fields)

text \<open>
  C4 (as amended). For every streamed chunk processed during \<open>sendMessage\<close>, in a
  conversation none of whose messages, as they stand when the placeholder is appended,
  carries the placeholder's id: the state update of the chunk is \<open>updateConversation\<close>
  with the map over the messages, and it replaces only the in-progress assistant
  placeholder, the last message, whose text becomes the response accumulated so far. Every
  other (finalized) message of the conversation is the same before and after the update,
  and so are the conversation's id, title and creation time; every conversation with
  another id, the active conversation id and the loading flag are unchanged as well. The
  state in which the stream loop of \<open>sendMessage\<close> ends is the state after the last chunk.
\<close>

theorem chunk_update_frame:
  fixes env :: send_env and u :: user and prompt :: jsstring and img :: "jsstring option"
    and st :: chat_state and attached :: "js_file option" and active :: "jsstring option"
    and i n :: nat
  defines "userMessage \<equiv> userMessage_of env prompt img"
  defines "cid \<equiv> fst (addUserMessage env u userMessage st)"
  defines "added \<equiv> snd (snd (addUserMessage env u userMessage st))"
  defines "aid \<equiv> aiMessageId_of env"
  defines "placed \<equiv> addPlaceholder env u cid added"
  defines "chunks \<equiv> fst (generateResponseStream (generate_api env)
      (stream_params env u prompt attached userMessage active cid aid))"
  defines "pre \<equiv> snd (streamChunks u cid aid (take n chunks) ([], placed))"
  defines "post \<equiv> snd (streamChunks u cid aid (take (Suc n) chunks) ([], placed))"
  assumes exists: "i < length (conversations added)"
    and active_id: "c_id (conversations added ! i) = cid"
    and fresh: "aid \<notin> m_id ` set (c_messages (conversations added ! i))"
    and chunk: "n < length chunks"
  shows "snd (snd (streamResponse env u prompt attached userMessage active cid aid placed)) =
           snd (streamChunks u cid aid (take (length chunks) chunks) ([], placed))
   \<and> post = updateConversation (Some u) cid
              (setPlaceholderText aid (concat (take (Suc n) chunks))) pre
   \<and> c_messages (conversations pre ! i) =
       c_messages (conversations added ! i) @
         [(aiMessagePlaceholder env)\<lparr>m_text := concat (take n chunks)\<rparr>]
   \<and> c_messages (conversations post ! i) =
       c_messages (conversations added ! i) @
         [(aiMessagePlaceholder env)\<lparr>m_text := concat (take (Suc n) chunks)\<rparr>]
   \<and> (\<forall>k < length (c_messages (conversations added ! i)).
         c_messages (conversations post ! i) ! k = c_messages (conversations pre ! i) ! k
         \<and> c_messages (conversations pre ! i) ! k = c_messages (conversations added ! i) ! k)
   \<and> c_id (conversations post ! i) = c_id (conversations pre ! i)
   \<and> c_title (conversations post ! i) = c_title (conversations pre ! i)
   \<and> c_createdAt (conversations post ! i) = c_createdAt (conversations pre ! i)
   \<and> length (conversations post) = length (conversations pre)
   \<and> (\<forall>j < length (conversations pre). c_id (conversations pre ! j) \<noteq> cid \<longrightarrow>
         conversations post ! j = conversations pre ! j)
   \<and> activeConversationId post = activeConversationId pre
   \<and> isLoading post = isLoading pre"
proof -
  let ?ph = "aiMessagePlaceholder env"
  let ?finalized = "c_messages (conversations added ! i)"
  have ph: "m_id ?ph = aid" "m_text ?ph = []"
    by (simp_all add: aiMessagePlaceholder_def aid_def)
  have len: "i < length (conversations placed)"
    using exists by (simp add: placed_def addPlaceholder_def updateConversation_conversations)
  have placed_i: "conversations placed ! i =
      (conversations added ! i)\<lparr>c_messages := ?finalized @ [?ph]\<rparr>"
    using exists active_id by (simp add: placed_def addPlaceholder_def updateConversation_conversations)
  then have placed_id: "c_id (conversations placed ! i) = cid"
    and placed_msgs: "c_messages (conversations placed ! i) = ?finalized @ [?ph]"
    using active_id by simp_all
  have msgs: "c_messages (conversations (snd (streamChunks u cid aid xs ([], placed))) ! i) =
      ?finalized @ [?ph\<lparr>m_text := concat xs\<rparr>]" for xs
    by (rule streamed_messages [OF len placed_id placed_msgs fresh ph])
  have step: "post = updateConversation (Some u) cid
      (setPlaceholderText aid (concat (take (Suc n) chunks))) pre"
    unfolding post_def pre_def by (rule streamChunks_step [OF chunk])
  have ended: "snd (snd (streamResponse env u prompt attached userMessage active cid aid placed)) =
      snd (streamChunks u cid aid (take (length chunks) chunks) ([], placed))"
    by (simp add: streamResponse_def Let_def chunks_def)
  have m_pre: "c_messages (conversations pre ! i) = ?finalized @ [?ph\<lparr>m_text := concat (take n chunks)\<rparr>]"
    unfolding pre_def by (rule msgs)
  have m_post: "c_messages (conversations post ! i) =
      ?finalized @ [?ph\<lparr>m_text := concat (take (Suc n) chunks)\<rparr>]"
    unfolding post_def by (rule msgs)
  have kept: "\<forall>k < length ?finalized.
      c_messages (conversations post ! i) ! k = c_messages (conversations pre ! i) ! k
      \<and> c_messages (conversations pre ! i) ! k = ?finalized ! k"
    by (simp add: m_pre m_post nth_append)
  have len_pre: "i < length (conversations pre)"
    using len by (simp add: pre_def streamed_fields)
  have fields: "c_id (conversations post ! i) = c_id (conversations pre ! i)
      \<and> c_title (conversations post ! i) = c_title (conversations pre ! i)
      \<and> c_createdAt (conversations post ! i) = c_createdAt (conversations pre ! i)"
    using len_pre by (simp add: step updateConversation_conversations setPlaceholderText_fields)
  have others: "length (conversations post) = length (conversations pre)
      \<and> (\<forall>j < length (conversations pre). c_id (conversations pre ! j) \<noteq> cid \<longrightarrow>
            conversations post ! j = conversations pre ! j)"
    by (simp add: step updateConversation_conversations)
  have flags: "activeConversationId post = activeConversationId pre \<and> isLoading post = isLoading pre"
    by (simp add: step updateConversation_frame)
  from ended step m_pre m_post kept fields others flags show ?thesis
    by blast
qed

lemma ex_chunks:
  "fst (generateResponseStream ex_backup_api params) = [str ''Mer'', str ''haba'']"
  by (simp add: generateResponseStream_def try_catch_def try_generate_def catch_generate_def
      ex_backup_api_def build_request_def PRIMARY_not_BACKUP PRIMARY_not_BACKUP [symmetric])

lemma ex_added:
  "addUserMessage env ex_user um (ex_chat_state\<lparr>isLoading := True\<rparr>) =
     (str ''c1'', False,
      updateConversation (Some ex_user) (str ''c1'')
        (\<lambda>conv. conv\<lparr>c_messages := c_messages conv @ [um]\<rparr>) (ex_chat_state\<lparr>isLoading := True\<rparr>))"
  by (rule addUserMessage_existing) (simp_all add: ex_chat_state_def str_def)

lemma ex_added_conversations:
  "conversations (updateConversation (Some ex_user) (str ''c1'')
        (\<lambda>conv. conv\<lparr>c_messages := c_messages conv @ [um]\<rparr>) (ex_chat_state\<lparr>isLoading := True\<rparr>)) =
     [ex_conversation\<lparr>c_messages := [ex_user_message, ex_ai_message, um]\<rparr>]"
  by (simp add: updateConversation_conversations ex_chat_state_def ex_conversation_def)

lemma ex_placed_conversations:
  "conversations (addPlaceholder env ex_user (str ''c1'')
      (updateConversation (Some ex_user) (str ''c1'')
        (\<lambda>conv. conv\<lparr>c_messages := c_messages conv @ [um]\<rparr>) (ex_chat_state\<lparr>isLoading := True\<rparr>))) =
     [ex_conversation\<lparr>c_messages := [ex_user_message, ex_ai_message, um, aiMessagePlaceholder env]\<rparr>]"
  by (simp add: addPlaceholder_def updateConversation_conversations ex_chat_state_def
      ex_conversation_def)

lemma ex_ids:
  "aiMessageId_of ex_env = str ''msg-1700000000002-ai''"
  "aiMessageId_of ex_env_same_clock = str ''msg-1699999990500-ai''"
  "m_id (userMessage_of env prompt img) \<noteq> str ''msg-1700000000002-ai''"
  "m_id (userMessage_of env prompt img) \<noteq> str ''msg-1699999990500-ai''"
  "m_id ex_user_message \<noteq> str ''msg-1700000000002-ai''"
  "m_id ex_ai_message \<noteq> str ''msg-1700000000002-ai''"
  "m_id ex_user_message \<noteq> str ''msg-1699999990500-ai''"
  "m_id ex_ai_message = str ''msg-1699999990500-ai''"
  "m_id (aiMessagePlaceholder env) = aiMessageId_of env"
  "generate_api ex_env = ex_backup_api"
  "generate_api ex_env_same_clock = ex_backup_api"
  "str ''msg-1700000000002-ai'' \<noteq> str ''msg-1699999990500-ai''"
proof -
  show a: "aiMessageId_of ex_env = str ''msg-1700000000002-ai''"
    by (simp add: aiMessageId_of_def ex_env_def numberToString_def digits.simps str_def)
  show b: "aiMessageId_of ex_env_same_clock = str ''msg-1699999990500-ai''"
    by (simp add: aiMessageId_of_def ex_env_same_clock_def ex_env_def numberToString_def
        digits.simps str_def)
  show "m_id (userMessage_of env prompt img) \<noteq> str ''msg-1700000000002-ai''"
    using userMessage_id_not_ai [of env prompt img ex_env] by (simp add: a)
  show "m_id (userMessage_of env prompt img) \<noteq> str ''msg-1699999990500-ai''"
    using userMessage_id_not_ai [of env prompt img ex_env_same_clock] by (simp add: b)
  show "m_id ex_user_message \<noteq> str ''msg-1700000000002-ai''"
    by (simp add: ex_user_message_def str_def)
  show "m_id ex_ai_message \<noteq> str ''msg-1700000000002-ai''"
    by (simp add: ex_ai_message_def str_def)
  show "m_id ex_user_message \<noteq> str ''msg-1699999990500-ai''"
    by (simp add: ex_user_message_def str_def)
  show "m_id ex_ai_message = str ''msg-1699999990500-ai''"
    by (simp add: ex_ai_message_def)
  show "m_id (aiMessagePlaceholder env) = aiMessageId_of env"
    by (simp add: aiMessagePlaceholder_def)
  show "generate_api ex_env = ex_backup_api"
    by (simp add: ex_env_def)
  show "generate_api ex_env_same_clock = ex_backup_api"
    by (simp add: ex_env_same_clock_def ex_env_def)
  show "str ''msg-1700000000002-ai'' \<noteq> str ''msg-1699999990500-ai''"
    by (simp add: str_def)
qed

lemma ex_state_conversations:
  "conversations ex_chat_state = [ex_conversation]"
  "conversations (ex_chat_state\<lparr>isLoading := True\<rparr>) = [ex_conversation]"
  by (simp_all add: ex_chat_state_def)

lemmas chat_eval = ex_state_conversations ex_chunks ex_added ex_added_conversations ex_placed_conversations ex_ids
  ex_ids(3-7,12) [symmetric] streamChunks_conversations updateConversation_conversations
  setPlaceholderText_def Let_def

theorem chunk_update_frame_witness:
  "(let um = userMessage_of ex_env (str ''Merhaba'') None;
        st = ex_chat_state\<lparr>isLoading := True\<rparr>;
        cid = fst (addUserMessage ex_env ex_user um st);
        added = snd (snd (addUserMessage ex_env ex_user um st));
        aid = aiMessageId_of ex_env;
        placed = addPlaceholder ex_env ex_user cid added;
        chunks = fst (generateResponseStream (generate_api ex_env)
           (stream_params ex_env ex_user (str ''Merhaba'') None um (Some (str ''c1'')) cid aid));
        pre = snd (streamChunks ex_user cid aid (take 1 chunks) ([], placed));
        post = snd (streamChunks ex_user cid aid (take (Suc 1) chunks) ([], placed))
    in (0::nat) < length (conversations added)
     \<and> c_id (conversations added ! 0) = cid
     \<and> aid \<notin> m_id ` set (c_messages (conversations added ! 0))
     \<and> (1::nat) < length chunks
     \<and> chunks = [str ''Mer'', str ''haba'']
     \<and> c_messages (conversations added ! 0) = [ex_user_message, ex_ai_message, um]
     \<and> c_messages (conversations pre ! 0) =
          [ex_user_message, ex_ai_message, um, (aiMessagePlaceholder ex_env)\<lparr>m_text := str ''Mer''\<rparr>]
     \<and> c_messages (conversations post ! 0) =
          [ex_user_message, ex_ai_message, um, (aiMessagePlaceholder ex_env)\<lparr>m_text := str ''Merhaba''\<rparr>]
     \<and> c_title (conversations post ! 0) = str ''Greeting'')"
  using chunk_update_frame [where env = ex_env and u = ex_user and prompt = "str ''Merhaba''"
      and img = None and st = "ex_chat_state\<lparr>isLoading := True\<rparr>" and attached = None
      and active = "Some (str ''c1'')" and i = 0 and n = 1]
  by (simp add: chat_eval ex_conversation_def)
     (simp add: str_def)

text \<open>
  The claim as stated fails when a finalized message of the conversation carries the id made
  for the placeholder: the first chunk update of the send rewrites the earlier answer
  \<open>Hi Ada\<close>, the second message of the list, while the placeholder is the fourth.
\<close>

theorem chunk_update_frame_counterexample:
  "(let um = userMessage_of ex_env_same_clock (str ''Merhaba'') None;
        st = ex_chat_state\<lparr>isLoading := True\<rparr>;
        cid = fst (addUserMessage ex_env_same_clock ex_user um st);
        added = snd (snd (addUserMessage ex_env_same_clock ex_user um st));
        aid = aiMessageId_of ex_env_same_clock;
        placed = addPlaceholder ex_env_same_clock ex_user cid added;
        chunks = fst (generateResponseStream (generate_api ex_env_same_clock)
           (stream_params ex_env_same_clock ex_user (str ''Merhaba'') None um (Some (str ''c1'')) cid aid));
        pre = snd (streamChunks ex_user cid aid (take 0 chunks) ([], placed));
        post = snd (streamChunks ex_user cid aid (take (Suc 0) chunks) ([], placed))
    in chunks = [str ''Mer'', str ''haba'']
     \<and> c_messages (conversations pre ! 0) =
          [ex_user_message, ex_ai_message, um, aiMessagePlaceholder ex_env_same_clock]
     \<and> c_messages (conversations post ! 0) =
          [ex_user_message, ex_ai_message\<lparr>m_text := str ''Mer''\<rparr>, um,
           (aiMessagePlaceholder ex_env_same_clock)\<lparr>m_text := str ''Mer''\<rparr>]
     \<and> c_messages (conversations post ! 0) ! 1 \<noteq> c_messages (conversations pre ! 0) ! 1)"
  by (simp add: chat_eval ex_conversation_def)
     (simp add: ex_ai_message_def str_def)

subsection \<open>Model failures\<close>

lemma apology_not_empty: "apology \<noteq> []"
  by (simp add: apology_def str_def)

lemma title_saved_last:
  assumes "conversations st \<noteq> []" and "c_id (hd (conversations st)) = ident"
  shows "c_title (last (saved (refreshConversationFromDB env ident' (updateConversation (Some u) ident
           (\<lambda>conv. conv\<lparr>c_title := t\<rparr>) st)))) = t"
proof -
  let ?hits = "filter (\<lambda>conv. c_id conv = ident) (conversations st)"
  from assms(1) obtain c cs where cs: "conversations st = c # cs"
    by (cases "conversations st") simp_all
  with assms(2) have ne: "?hits \<noteq> []" by simp
  have "saved (refreshConversationFromDB env ident' (updateConversation (Some u) ident
           (\<lambda>conv. conv\<lparr>c_title := t\<rparr>) st)) = saved st @ map (\<lambda>conv. conv\<lparr>c_title := t\<rparr>) ?hits"
    by (cases "refresh_select env") (simp_all add: refreshConversationFromDB_def updateConversation_def)
  with ne show ?thesis by (simp add: last_map)
qed

lemma title_hd:
  assumes "conversations st \<noteq> []" and "c_id (hd (conversations st)) = ident"
    and "refresh_select env = Error \<or> refresh_select env = Threw"
  shows "hd (conversations (refreshConversationFromDB env ident' (updateConversation (Some u) ident
           (\<lambda>conv. conv\<lparr>c_title := t\<rparr>) st))) = (hd (conversations st))\<lparr>c_title := t\<rparr>"
proof -
  have "refreshConversationFromDB env ident' (updateConversation (Some u) ident
           (\<lambda>conv. conv\<lparr>c_title := t\<rparr>) st) = updateConversation (Some u) ident
           (\<lambda>conv. conv\<lparr>c_title := t\<rparr>) st"
    using assms(3) by (auto simp add: refreshConversationFromDB_def)
  with assms(1,2) show ?thesis
    by (cases "conversations st") (simp_all add: updateConversation_conversations)
qed

lemma sendMessage_new_down:
  assumes active: "activeConversationId st = None"
    and primary: "generate_api env (build_request
        (stream_params env u prompt None (userMessage_of env prompt None) None (randomUUID env)
           (aiMessageId_of env)) PRIMARY_MODEL) = CallFailed"
    and backup: "generate_api env (build_request
        (stream_params env u prompt None (userMessage_of env prompt None) None (randomUUID env)
           (aiMessageId_of env)) BACKUP_MODEL) = CallFailed"
    and title: "generateTitle (title_api env) (prompt @ [0x0A, 0x0A] @ apology) = Return t"
  shows "\<exists>st2. conversations st2 \<noteq> [] \<and>
      hd (conversations st2) =
        \<lparr>c_id = randomUUID env, c_title = str ''New Conversation'',
         c_messages = [userMessage_of env prompt None, (aiMessagePlaceholder env)\<lparr>m_text := apology\<rparr>],
         c_createdAt = now_createdAt env\<rparr> \<and>
      sendMessage env (Some u) prompt None st =
        ((refreshConversationFromDB env (randomUUID env)
            (updateConversation (Some u) (randomUUID env) (\<lambda>conv. conv\<lparr>c_title := t\<rparr>) st2))
           \<lparr>isLoading := False\<rparr>, Fulfilled)"
proof -
  define um where "um = userMessage_of env prompt None"
  define aid where "aid = aiMessageId_of env"
  define ph where "ph = aiMessagePlaceholder env"
  define new where "new = \<lparr>c_id = randomUUID env, c_title = str ''New Conversation'',
      c_messages = [um], c_createdAt = now_createdAt env\<rparr>"
  define st1 where "st1 = st\<lparr>isLoading := True, conversations := new # conversations st,
      activeConversationId := Some (randomUUID env), saved := saved st @ [new]\<rparr>"
  define placed where "placed = addPlaceholder env u (randomUUID env) st1"
  define st2 where "st2 = updateConversation (Some u) (randomUUID env) (setPlaceholderText aid apology) placed"
  have added: "addUserMessage env u um (st\<lparr>isLoading := True\<rparr>) = (randomUUID env, True, st1)"
    by (simp add: addUserMessage_new active new_def st1_def)
  have stream: "generateResponseStream (generate_api env)
      (stream_params env u prompt None um None (randomUUID env) aid) = ([apology], Normal)"
    using primary backup
    by (simp add: generate_backup_only um_def aid_def)
  have sr: "streamResponse env u prompt None um None (randomUUID env) aid placed = (Normal, apology, st2)"
    by (simp add: streamResponse_def stream st2_def)
  have ts: "try_send env u prompt None um None (randomUUID env) True aid placed =
      (Normal, refreshConversationFromDB env (randomUUID env)
         (updateConversation (Some u) (randomUUID env) (\<lambda>conv. conv\<lparr>c_title := t\<rparr>) st2))"
    using title by (simp add: try_send_def sr apology_not_empty)
  have send: "sendMessage env (Some u) prompt None st =
      ((refreshConversationFromDB env (randomUUID env)
          (updateConversation (Some u) (randomUUID env) (\<lambda>conv. conv\<lparr>c_title := t\<rparr>) st2))
         \<lparr>isLoading := False\<rparr>, Fulfilled)"
    by (simp add: sendMessage_def Let_def um_def [symmetric] added aid_def [symmetric]
        placed_def [symmetric] active ts)
  have um_id: "m_id um \<noteq> aid"
    unfolding um_def aid_def by (rule userMessage_id_not_ai)
  have ph_id: "m_id ph = aid"
    by (simp add: ph_def aid_def aiMessagePlaceholder_def)
  have "conversations placed = map (\<lambda>conv. if c_id conv = randomUUID env
      then conv\<lparr>c_messages := c_messages conv @ [ph]\<rparr> else conv) (new # conversations st)"
    by (simp add: placed_def addPlaceholder_def updateConversation_conversations st1_def ph_def)
  then have "hd (conversations st2) = setPlaceholderText aid apology (new\<lparr>c_messages := [um, ph]\<rparr>)
      \<and> conversations st2 \<noteq> []"
    by (simp add: st2_def updateConversation_conversations new_def)
  then have "conversations st2 \<noteq> [] \<and> hd (conversations st2) =
      \<lparr>c_id = randomUUID env, c_title = str ''New Conversation'',
       c_messages = [um, ph\<lparr>m_text := apology\<rparr>], c_createdAt = now_createdAt env\<rparr>"
    using um_id ph_id by (simp add: setPlaceholderText_def new_def)
  with send show ?thesis
    unfolding um_def ph_def by blast
qed

text \<open>
  C3. When both model calls fail, \<open>generateResponseStream\<close> yields the apology and ends
  normally; in no case does an exception leave it. Consequently the \<open>try\<close> block of
  \<open>sendMessage\<close> never ends with an exception, whatever the provider does, so the
  \<open>catch\<close> branch that overwrites the placeholder with the apology is not reached through
  model failures. And since the yielded apology makes the accumulated response non-empty,
  a send that starts a new conversation still generates a title, from the prompt followed by
  the apology text: that title is in the last conversation handed to the remote store and,
  unless the concluding refresh replaces the conversation, in the new conversation, whose
  messages are the user message and the assistant message with the apology.
\<close>

theorem model_failure_completes:
  "snd (generateResponseStream api params) \<noteq> Throw
   \<and> (api (build_request params PRIMARY_MODEL) = CallFailed \<and>
      api (build_request params BACKUP_MODEL) = CallFailed \<longrightarrow>
        generateResponseStream api params = ([apology], Normal))
   \<and> fst (try_send env u prompt file um active cid needsTitle aid st) \<noteq> Throw
   \<and> (activeConversationId st = None \<and>
      generate_api env (build_request
        (stream_params env u prompt None (userMessage_of env prompt None) None (randomUUID env)
           (aiMessageId_of env)) PRIMARY_MODEL) = CallFailed \<and>
      generate_api env (build_request
        (stream_params env u prompt None (userMessage_of env prompt None) None (randomUUID env)
           (aiMessageId_of env)) BACKUP_MODEL) = CallFailed \<longrightarrow>
        (\<exists>t. generateTitle (title_api env) (prompt @ [0x0A, 0x0A] @ apology) = Return t
           \<and> c_title (last (saved (fst (sendMessage env (Some u) prompt None st)))) = t
           \<and> (refresh_select env = Error \<or> refresh_select env = Threw \<longrightarrow>
                hd (conversations (fst (sendMessage env (Some u) prompt None st))) =
                  \<lparr>c_id = randomUUID env, c_title = t,
                   c_messages = [userMessage_of env prompt None,
                                 (aiMessagePlaceholder env)\<lparr>m_text := apology\<rparr>],
                   c_createdAt = now_createdAt env\<rparr>)))"
proof -
  have gen: "snd (generateResponseStream api params) \<noteq> Throw"
    by (rule generateResponseStream_not_Throw)
  have both: "api (build_request params PRIMARY_MODEL) = CallFailed \<and>
      api (build_request params BACKUP_MODEL) = CallFailed \<longrightarrow>
        generateResponseStream api params = ([apology], Normal)"
    by (simp add: generate_backup_only)
  have tried: "fst (try_send env u prompt file um active cid needsTitle aid st) \<noteq> Throw"
    by (rule try_send_not_Throw)
  have titled: "\<exists>t. generateTitle (title_api env) (prompt @ [0x0A, 0x0A] @ apology) = Return t
           \<and> c_title (last (saved (fst (sendMessage env (Some u) prompt None st)))) = t
           \<and> (refresh_select env = Error \<or> refresh_select env = Threw \<longrightarrow>
                hd (conversations (fst (sendMessage env (Some u) prompt None st))) =
                  \<lparr>c_id = randomUUID env, c_title = t,
                   c_messages = [userMessage_of env prompt None,
                                 (aiMessagePlaceholder env)\<lparr>m_text := apology\<rparr>],
                   c_createdAt = now_createdAt env\<rparr>)"
    if active: "activeConversationId st = None"
      and primary: "generate_api env (build_request
        (stream_params env u prompt None (userMessage_of env prompt None) None (randomUUID env)
           (aiMessageId_of env)) PRIMARY_MODEL) = CallFailed"
      and backup: "generate_api env (build_request
        (stream_params env u prompt None (userMessage_of env prompt None) None (randomUUID env)
           (aiMessageId_of env)) BACKUP_MODEL) = CallFailed"
  proof -
    obtain t where t: "generateTitle (title_api env) (prompt @ [0x0A, 0x0A] @ apology) = Return t"
      using generateTitle_returns by blast
    from sendMessage_new_down [OF active primary backup t]
    obtain st2 where ne: "conversations st2 \<noteq> []"
      and hd: "hd (conversations st2) =
        \<lparr>c_id = randomUUID env, c_title = str ''New Conversation'',
         c_messages = [userMessage_of env prompt None, (aiMessagePlaceholder env)\<lparr>m_text := apology\<rparr>],
         c_createdAt = now_createdAt env\<rparr>"
      and send: "sendMessage env (Some u) prompt None st =
        ((refreshConversationFromDB env (randomUUID env)
            (updateConversation (Some u) (randomUUID env) (\<lambda>conv. conv\<lparr>c_title := t\<rparr>) st2))
           \<lparr>isLoading := False\<rparr>, Fulfilled)"
      by blast
    from hd have id: "c_id (hd (conversations st2)) = randomUUID env" by simp
    have last: "c_title (last (saved (fst (sendMessage env (Some u) prompt None st)))) = t"
      using title_saved_last [OF ne id, of env "randomUUID env" u t] by (simp add: send)
    have head: "refresh_select env = Error \<or> refresh_select env = Threw \<longrightarrow>
        hd (conversations (fst (sendMessage env (Some u) prompt None st))) =
          \<lparr>c_id = randomUUID env, c_title = t,
           c_messages = [userMessage_of env prompt None, (aiMessagePlaceholder env)\<lparr>m_text := apology\<rparr>],
           c_createdAt = now_createdAt env\<rparr>"
    proof
      assume r: "refresh_select env = Error \<or> refresh_select env = Threw"
      show "hd (conversations (fst (sendMessage env (Some u) prompt None st))) =
          \<lparr>c_id = randomUUID env, c_title = t,
           c_messages = [userMessage_of env prompt None, (aiMessagePlaceholder env)\<lparr>m_text := apology\<rparr>],
           c_createdAt = now_createdAt env\<rparr>"
        using title_hd [OF ne id r, of "randomUUID env" u t] by (simp add: send hd)
    qed
    from t last head show ?thesis by blast
  qed
  from gen both tried titled show ?thesis by blast
qed

theorem model_failure_completes_witness:
  "activeConversationId ex_new_chat_state = None
   \<and> generate_api ex_env_down (build_request
        (stream_params ex_env_down ex_user (str ''Merhaba'') None
           (userMessage_of ex_env_down (str ''Merhaba'') None) None (randomUUID ex_env_down)
           (aiMessageId_of ex_env_down)) PRIMARY_MODEL) = CallFailed
   \<and> generate_api ex_env_down (build_request
        (stream_params ex_env_down ex_user (str ''Merhaba'') None
           (userMessage_of ex_env_down (str ''Merhaba'') None) None (randomUUID ex_env_down)
           (aiMessageId_of ex_env_down)) BACKUP_MODEL) = CallFailed
   \<and> refresh_select ex_env_down = Error
   \<and> generateTitle (title_api ex_env_down) (str ''Merhaba'' @ [0x0A, 0x0A] @ apology)
        = Return (str ''Failed request'')
   \<and> hd (conversations (fst (sendMessage ex_env_down (Some ex_user) (str ''Merhaba'') None
          ex_new_chat_state))) =
        \<lparr>c_id = str ''c2'', c_title = str ''Failed request'',
         c_messages = [userMessage_of ex_env_down (str ''Merhaba'') None,
                       (aiMessagePlaceholder ex_env_down)\<lparr>m_text := apology\<rparr>],
         c_createdAt = 1700000000001\<rparr>"
proof -
  have h1: "activeConversationId ex_new_chat_state = None"
    by (simp add: ex_new_chat_state_def)
  have h2: "\<And>r. generate_api ex_env_down r = CallFailed"
    by (simp add: ex_env_down_def)
  have h3: "refresh_select ex_env_down = Error"
    by (simp add: ex_env_down_def ex_env_def)
  have h4: "generateTitle (title_api ex_env_down) (str ''Merhaba'' @ [0x0A, 0x0A] @ apology)
        = Return (str ''Failed request'')"
    by (simp add: title_primary [where t = "str ''*Failed request*''"] ex_env_down_def
        trim_def replace_marks_def isWhiteSpace_def str_def)
  from model_failure_completes [of "generate_api ex_env_down" ex_params ex_env_down ex_user
      "str ''Merhaba''" None ex_user_message None "str ''c2''" True "str ''x''" ex_new_chat_state]
    h1 h2 h3 h4
  have "hd (conversations (fst (sendMessage ex_env_down (Some ex_user) (str ''Merhaba'') None
          ex_new_chat_state))) =
        \<lparr>c_id = randomUUID ex_env_down, c_title = str ''Failed request'',
         c_messages = [userMessage_of ex_env_down (str ''Merhaba'') None,
                       (aiMessagePlaceholder ex_env_down)\<lparr>m_text := apology\<rparr>],
         c_createdAt = now_createdAt ex_env_down\<rparr>"
    by auto
  then have "hd (conversations (fst (sendMessage ex_env_down (Some ex_user) (str ''Merhaba'') None
          ex_new_chat_state))) =
        \<lparr>c_id = str ''c2'', c_title = str ''Failed request'',
         c_messages = [userMessage_of ex_env_down (str ''Merhaba'') None,
                       (aiMessagePlaceholder ex_env_down)\<lparr>m_text := apology\<rparr>],
         c_createdAt = 1700000000001\<rparr>"
    by (simp add: ex_env_down_def ex_env_def)
  with h1 h2 h3 h4 show ?thesis by blast
qed

subsection \<open>The retry loop of the auth update\<close>

lemma verify_loop_calls:
  "verify_loop getUser attempts st = Inr st' \<Longrightarrow> update_calls st' = update_calls st"
  by (induction attempts arbitrary: st) (auto split: verify_outcome.splits)

lemma calls_extend:
  assumes "Suc n \<le> k"
  shows "(xs @ [Suc n]) @ map Suc [Suc n..<k] = xs @ map Suc [n..<k]"
  using assms by (simp add: upt_conv_Cons)

lemma update_loop_calls:
  "\<exists>k. n \<le> k \<and> k \<le> max n maxAttempts \<and>
       update_calls (snd (update_loop env n lastError st)) = update_calls st @ map Suc [n..<k]"
proof (induction env n lastError st rule: update_loop.induct)
  case (1 env n lastError st)
  let ?called = "st\<lparr>update_calls := update_calls st @ [n + 1]\<rparr>"
  have stop: "\<exists>k. n \<le> k \<and> k \<le> max n maxAttempts \<and> update_calls st = update_calls st @ map Suc [n..<k]"
    by (rule exI [of _ n]) simp
  have once: "n < maxAttempts \<Longrightarrow>
      \<exists>k. n \<le> k \<and> k \<le> max n maxAttempts \<and> update_calls ?called = update_calls st @ map Suc [n..<k]"
    by (rule exI [of _ "Suc n"]) simp
  have again: "\<exists>k. n \<le> k \<and> k \<le> max n maxAttempts \<and>
        update_calls (snd (update_loop env (n + 1) le ?called)) = update_calls st @ map Suc [n..<k]"
    if lt: "n < maxAttempts"
      and ih: "\<exists>k. n + 1 \<le> k \<and> k \<le> max (n + 1) maxAttempts \<and>
        update_calls (snd (update_loop env (n + 1) le ?called)) =
          update_calls ?called @ map Suc [n + 1..<k]" for le
  proof -
    from ih obtain k where k: "n + 1 \<le> k" "k \<le> max (n + 1) maxAttempts"
      "update_calls (snd (update_loop env (n + 1) le ?called)) =
          update_calls ?called @ map Suc [n + 1..<k]"
      by blast
    from k(1) have "Suc n \<le> k" by simp
    then have "update_calls ?called @ map Suc [n + 1..<k] = update_calls st @ map Suc [n..<k]"
      using calls_extend [of n k "update_calls st"] by simp
    with k lt show ?thesis
      by (intro exI [of _ k]) auto
  qed
  show ?case
  proof (cases "n < maxAttempts")
    case False
    with stop show ?thesis by (simp add: update_loop.simps [of env n])
  next
    case True
    show ?thesis
    proof (cases "auth_updateUser env (n + 1)")
      case (UpdateError e)
      show ?thesis
      proof (cases "n + 1 < maxAttempts")
        case lt: True
        from again [OF True "1.IH"(1) [OF True refl refl UpdateError lt]]
        show ?thesis using True UpdateError lt
          by (simp add: update_loop.simps [of env n] Let_def)
      next
        case False
        with once [OF True] True UpdateError show ?thesis
          by (simp add: update_loop.simps [of env n] Let_def)
      qed
    next
      case (UpdateThrew e)
      from again [OF True "1.IH"(2) [OF True refl refl UpdateThrew]]
      show ?thesis using True UpdateThrew
        by (simp add: update_loop.simps [of env n] Let_def)
    next
      case UpdateNoUser
      with once [OF True] True show ?thesis
        by (simp add: update_loop.simps [of env n] Let_def)
    next
      case UpdateUser
      show ?thesis
      proof (cases "verify_loop (auth_getUser env (n + 1)) [1, 2, 3] ?called")
        case (Inl e)
        from again [OF True "1.IH"(3) [OF True refl refl UpdateUser Inl]]
        show ?thesis using True UpdateUser Inl
          by (simp add: update_loop.simps [of env n] Let_def)
      next
        case (Inr verified)
        then have "update_calls verified = update_calls ?called"
          by (rule verify_loop_calls)
        with once [OF True] True UpdateUser Inr show ?thesis
          by (simp add: update_loop.simps [of env n] Let_def)
      qed
    qed
  qed
qed

lemma attempt_error_cases:
  "attempt_error outcome = Some e \<Longrightarrow> outcome = UpdateError e \<or> outcome = UpdateThrew e"
  by (cases outcome) simp_all

lemma update_loop_failed_last:
  assumes "attempt_error (auth_updateUser env 3) = Some e3"
  shows "update_loop env 2 lastError st =
     (\<lparr>success = False, error_message = e3\<rparr>, st\<lparr>update_calls := update_calls st @ [3]\<rparr>)"
  using attempt_error_cases [OF assms]
  by (auto simp add: update_loop.simps [of env 2] update_loop.simps [of env 3] maxAttempts_def
      all_attempts_failed_def Let_def)

lemma update_loop_failed_retry:
  assumes "attempt_error (auth_updateUser env (Suc n)) = Some e" and "Suc n < 3"
  shows "update_loop env n lastError st =
     update_loop env (Suc n) (Some e) (st\<lparr>update_calls := update_calls st @ [Suc n]\<rparr>)"
  using attempt_error_cases [OF assms(1)] assms(2)
  by (auto simp add: update_loop.simps [of env n] maxAttempts_def Let_def)

lemma updateUser_three_failures:
  assumes "getSession env = SessionUser"
    and "attempt_error (auth_updateUser env 1) = Some e1"
    and "attempt_error (auth_updateUser env 2) = Some e2"
    and "attempt_error (auth_updateUser env 3) = Some e3"
  shows "updateUser env st =
     (\<lparr>success = False, error_message = e3\<rparr>, st\<lparr>update_calls := update_calls st @ [1, 2, 3]\<rparr>)"
proof -
  have "update_loop env 0 None st =
      update_loop env (Suc 0) (Some e1) (st\<lparr>update_calls := update_calls st @ [Suc 0]\<rparr>)"
    using assms(2) by (intro update_loop_failed_retry) simp_all
  also have "\<dots> = update_loop env (Suc (Suc 0)) (Some e2)
      (st\<lparr>update_calls := update_calls st @ [Suc 0, Suc (Suc 0)]\<rparr>)"
    using update_loop_failed_retry [of env "Suc 0" e2 "Some e1"
        "st\<lparr>update_calls := update_calls st @ [Suc 0]\<rparr>"] assms(3)
    by (simp add: numeral_2_eq_2)
  also have "\<dots> = (\<lparr>success = False, error_message = e3\<rparr>,
      st\<lparr>update_calls := update_calls st @ [1, 2, 3]\<rparr>)"
    using update_loop_failed_last [OF assms(4), of "Some e2"
        "st\<lparr>update_calls := update_calls st @ [Suc 0, Suc (Suc 0)]\<rparr>"]
    by (simp add: numeral_2_eq_2)
  finally show ?thesis
    by (simp add: updateUser_def assms(1))
qed

lemma updateUser_calls:
  "\<exists>k\<le>3. update_calls (snd (updateUser env st)) = update_calls st @ map Suc [0..<k]"
proof (cases "getSession env")
  case SessionUser
  from update_loop_calls [of 0 env None st]
  obtain k where "k \<le> max 0 maxAttempts"
    "update_calls (snd (update_loop env 0 None st)) = update_calls st @ map Suc [0..<k]"
    by blast
  with SessionUser show ?thesis
    by (intro exI [of _ k]) (simp add: updateUser_def maxAttempts_def)
qed (auto simp add: updateUser_def intro: exI [of _ 0])

text \<open>
  C9. The retry loop of \<open>updateUser\<close> always ends (the loop is a total function: the number
  of attempts left, \<open>maxAttempts - updateAttempts\<close>, falls with every iteration) and calls
  the remote auth update at most 3 times: the calls of a run carry the attempt numbers
  1, 2, ... up to some \<open>k \<le> 3\<close>, each iteration incrementing the counter. When three
  attempts in a row fail, by an error or an exception, the fourth is not made and the
  operation returns a failure with the message of the last error.
\<close>

theorem updateUser_retries:
  "(\<exists>k\<le>3. update_calls (snd (updateUser env st)) = update_calls st @ map Suc [0..<k])
   \<and> (getSession env = SessionUser \<and>
      attempt_error (auth_updateUser env 1) = Some e1 \<and>
      attempt_error (auth_updateUser env 2) = Some e2 \<and>
      attempt_error (auth_updateUser env 3) = Some e3 \<longrightarrow>
        updateUser env st =
          (\<lparr>success = False, error_message = e3\<rparr>,
           st\<lparr>update_calls := update_calls st @ [1, 2, 3]\<rparr>))"
  using updateUser_calls updateUser_three_failures by blast

theorem updateUser_retries_witness:
  "getSession ex_auth_env = SessionUser
   \<and> attempt_error (auth_updateUser ex_auth_env 1) = Some (Some (str ''Rate limit''))
   \<and> attempt_error (auth_updateUser ex_auth_env 2) = Some (Some (str ''Rate limit''))
   \<and> attempt_error (auth_updateUser ex_auth_env 3) = Some (Some (str ''Failed to fetch''))
   \<and> updateUser ex_auth_env ex_auth_state =
        (\<lparr>success = False, error_message = Some (str ''Failed to fetch'')\<rparr>,
         \<lparr>auth_user = Some ex_user, update_calls = [1, 2, 3]\<rparr>)"
  using updateUser_retries [of ex_auth_env ex_auth_state "Some (str ''Rate limit'')"
      "Some (str ''Rate limit'')" "Some (str ''Failed to fetch'')"]
  by (simp add: ex_auth_env_def ex_auth_state_def)

end
